theory Spec2Isabelle
  imports Complex_Main "HOL-Library.Sublist" "HOL-Library.AList" "HOL-Library.Multiset"
begin

section \<open>Numbers, exceptions and strings of the Python program\<close>

text \<open>
  The program computes on IEEE doubles (numpy \<^verbatim>\<open>float64\<close>).  A finite double is
  modelled by the real number it denotes; the one special value the program meets in
  practice, the missing-value marker \<^verbatim>\<open>nan\<close> (a missing DataFrame cell, the quantile
  of an empty column), is kept as a constructor of its own.  Rounding error of the
  floating-point operations is not modelled.
\<close>

datatype pyfloat = Num real | NaN

text \<open>Every comparison with \<^verbatim>\<open>nan\<close> is false.\<close>

fun float_lt :: "pyfloat \<Rightarrow> pyfloat \<Rightarrow> bool" where
  "float_lt (Num a) (Num b) = (a < b)"
| "float_lt _ _ = False"

fun float_le :: "pyfloat \<Rightarrow> pyfloat \<Rightarrow> bool" where
  "float_le (Num a) (Num b) = (a \<le> b)"
| "float_le _ _ = False"

definition float_gt :: "pyfloat \<Rightarrow> pyfloat \<Rightarrow> bool" where
  "float_gt a b = float_lt b a"

text \<open>
  An exception raised inside the program: \<open>IndexError\<close> for an out-of-range
  subscript, \<open>FileNotFoundError\<close> for a missing file, \<open>Raised msg\<close> for any other
  exception of a library collaborator (classifier, attributor, pandas) with its message.
  The message texts of the first two are abbreviated.
\<close>

datatype exn = IndexError | FileNotFoundError | Raised string

fun str_exn :: "exn \<Rightarrow> string" where
  "str_exn IndexError = ''index out of range''"
| "str_exn FileNotFoundError = ''No such file or directory''"
| "str_exn (Raised msg) = msg"

subsection \<open>Fixed-point rendering, \<^verbatim>\<open>f"{x:.2f}"\<close>\<close>

definition digit :: "nat \<Rightarrow> char" where
  "digit n = ''0123456789'' ! (n mod 10)"

fun str_nat :: "nat \<Rightarrow> string" where
  "str_nat n = (if n < 10 then [digit n] else str_nat (n div 10) @ [digit (n mod 10)])"

declare str_nat.simps [simp del]

text \<open>Correct rounding of the exact value to an integer, ties to even.\<close>

definition round_half_even :: "real \<Rightarrow> int" where
  "round_half_even x =
     (let f = \<lfloor>x\<rfloor>; d = x - of_int f
      in if d < 1 / 2 then f else if 1 / 2 < d then f + 1
         else if even f then f else f + 1)"

definition format_2f :: "pyfloat \<Rightarrow> string" where
  "format_2f v =
     (case v of
        NaN \<Rightarrow> ''nan''
      | Num r \<Rightarrow>
          (let k = nat (round_half_even (\<bar>r\<bar> * 100))
           in (if r < 0 then ''-'' else '''') @ str_nat (k div 100) @ ''.''
              @ [digit (k div 10), digit k]))"

subsection \<open>\<^verbatim>\<open>str.replace\<close>, \<^verbatim>\<open>str.title\<close>, \<^verbatim>\<open>str.split\<close>, \<^verbatim>\<open>str.join\<close> on ASCII text\<close>

definition str_replace :: "char \<Rightarrow> char \<Rightarrow> string \<Rightarrow> string" where
  "str_replace old new s = map (\<lambda>c. if c = old then new else c) s"

definition ascii_lowercase :: string where
  "ascii_lowercase = ''abcdefghijklmnopqrstuvwxyz''"

definition ascii_uppercase :: string where
  "ascii_uppercase = ''ABCDEFGHIJKLMNOPQRSTUVWXYZ''"

definition islower :: "char \<Rightarrow> bool" where
  "islower c = (c \<in> set ascii_lowercase)"

definition isupper :: "char \<Rightarrow> bool" where
  "isupper c = (c \<in> set ascii_uppercase)"

definition upper :: "char \<Rightarrow> char" where
  "upper c = (case map_of (zip ascii_lowercase ascii_uppercase) c of Some u \<Rightarrow> u | None \<Rightarrow> c)"

definition lower :: "char \<Rightarrow> char" where
  "lower c = (case map_of (zip ascii_uppercase ascii_lowercase) c of Some l \<Rightarrow> l | None \<Rightarrow> c)"

text \<open>
  \<^verbatim>\<open>str.title\<close>: a cased character is upper-cased when the character before it is
  uncased (or there is none) and lower-cased otherwise.
\<close>

fun title_from :: "bool \<Rightarrow> string \<Rightarrow> string" where
  "title_from previous_is_cased [] = []"
| "title_from previous_is_cased (c # cs) =
     (if islower c then (if previous_is_cased then c else upper c) # title_from True cs
      else if isupper c then (if previous_is_cased then lower c else c) # title_from True cs
      else c # title_from False cs)"

definition str_title :: "string \<Rightarrow> string" where
  "str_title s = title_from False s"

definition isspace :: "char \<Rightarrow> bool" where
  "isspace c = (c \<in> set [CHR '' '', CHR 0x09, CHR 0x0A, CHR 0x0B, CHR 0x0C, CHR 0x0D,
                           CHR 0x1C, CHR 0x1D, CHR 0x1E, CHR 0x1F])"

text \<open>\<^verbatim>\<open>str.split()\<close> without separator: the maximal runs of non-blank characters.\<close>

fun split_from :: "string \<Rightarrow> string \<Rightarrow> string list" where
  "split_from word [] = (if word = [] then [] else [word])"
| "split_from word (c # cs) =
     (if isspace c then (if word = [] then split_from [] cs else word # split_from [] cs)
      else split_from (word @ [c]) cs)"

definition str_split :: "string \<Rightarrow> string list" where
  "str_split s = split_from [] s"

fun str_join :: "string \<Rightarrow> string list \<Rightarrow> string" where
  "str_join sep [] = []"
| "str_join sep [w] = w"
| "str_join sep (w # v # ws) = w @ sep @ str_join sep (v # ws)"

section \<open>The Explanation Generator (\<^verbatim>\<open>generate_text_explanation\<close>, app.py)\<close>

definition feature_parts :: "string \<Rightarrow> string list" where
  "feature_parts feature_name = str_split (str_title (str_replace CHR ''_'' CHR '' '' feature_name))"

text \<open>The four f-string templates of the function.\<close>

definition generic_statement :: "string \<Rightarrow> string \<Rightarrow> string" where
  "generic_statement metric sensor =
     ''The '' @ metric @ '' of '' @ sensor @ '' was a significant factor.''"

definition low_statement :: "string \<Rightarrow> string \<Rightarrow> pyfloat \<Rightarrow> pyfloat \<Rightarrow> pyfloat \<Rightarrow> string" where
  "low_statement metric sensor value lower_bound upper_bound =
     ''The **'' @ metric @ '' of '' @ sensor @ ''** was unusually **low** (''
     @ format_2f value @ ''), falling below the normal range of ''
     @ format_2f lower_bound @ '' - '' @ format_2f upper_bound
     @ ''. This could indicate a leak or a loss of system pressure.''"

definition high_statement :: "string \<Rightarrow> string \<Rightarrow> pyfloat \<Rightarrow> pyfloat \<Rightarrow> pyfloat \<Rightarrow> string" where
  "high_statement metric sensor value lower_bound upper_bound =
     ''The **'' @ metric @ '' of '' @ sensor @ ''** was unusually **high** (''
     @ format_2f value @ ''), exceeding the normal range of ''
     @ format_2f lower_bound @ '' - '' @ format_2f upper_bound
     @ ''. This might suggest a blockage or excessive system strain.''"

definition within_statement :: "string \<Rightarrow> string \<Rightarrow> pyfloat \<Rightarrow> string" where
  "within_statement metric sensor value =
     ''The **'' @ metric @ '' of '' @ sensor @ ''** ('' @ format_2f value
     @ '') was within its normal range but still a key factor in the model's decision, possibly due to its interaction with other sensor readings.''"

text \<open>
  \<^verbatim>\<open>feature_parts[0]\<close> is evaluated before the range is looked at, so a name without
  any token raises \<^verbatim>\<open>IndexError\<close> whatever the range is.
\<close>

definition generate_text_explanation ::
  "string \<Rightarrow> pyfloat \<Rightarrow> (pyfloat \<times> pyfloat) option \<Rightarrow> exn + string" where
  "generate_text_explanation feature_name value normal_range_tuple =
     (case feature_parts feature_name of
        [] \<Rightarrow> Inl IndexError
      | sensor # rest \<Rightarrow>
          (let metric = str_join '' '' rest
           in case normal_range_tuple of
                None \<Rightarrow> Inr (generic_statement metric sensor)
              | Some (lower_bound, upper_bound) \<Rightarrow>
                  if float_lt value lower_bound then
                    Inr (low_statement metric sensor value lower_bound upper_bound)
                  else if float_gt value upper_bound then
                    Inr (high_statement metric sensor value lower_bound upper_bound)
                  else Inr (within_statement metric sensor value)))"

section \<open>The Prediction Service (\<^verbatim>\<open>predict\<close>, app.py)\<close>

text \<open>
  The classifier and the attributor are library objects.  They are parameters of the
  model: a classifier is its class list and its two prediction functions on one row of
  features, an attributor maps the row to the attribution matrix \<^verbatim>\<open>values[0]\<close> (one
  row per feature, one column per class).  Either may raise.
\<close>

record classifier =
  model_classes :: "int list"
  model_predict :: "pyfloat list \<Rightarrow> exn + int"
  model_predict_proba :: "pyfloat list \<Rightarrow> exn + real list"

type_synonym attributor = "pyfloat list \<Rightarrow> exn + real list list"

text \<open>The values of a response dictionary; a dictionary keeps its insertion order.\<close>

datatype jval = JStr string | JInt int | JList "string list"

type_synonym pydict = "(string \<times> jval) list"

text \<open>
  The module-level objects every request shares.  The sorting routine of the imported
  numpy, \<^verbatim>\<open>np.argsort\<close>, is one of them: like the classifier it is library code and
  a parameter of the model, because the order in which it returns the indices of equal
  values is not fixed by the library (its default sort is not stable).
\<close>

record globals =
  model :: "classifier option"
  explainer :: "attributor option"
  normal_ranges :: "(string \<times> pyfloat \<times> pyfloat) list"
  EXPECTED_FEATURES :: "string list"
  PREDICTION_MAP :: "(int \<times> pydict) list"
  np_argsort :: "real list \<Rightarrow> nat list"

definition PREDICTION_MAP_initial :: "(int \<times> pydict) list" where
  "PREDICTION_MAP_initial =
     [(100, [(''label'', JStr ''Optimal''), (''severity'', JStr ''low''),
             (''remedy'', JList [''System is operating optimally.''])]),
      (90, [(''label'', JStr ''Small Lag''), (''severity'', JStr ''medium''),
            (''remedy'', JList [''Inspect valve for contamination.'', ''Check pilot pressure.''])]),
      (80, [(''label'', JStr ''Severe Lag''), (''severity'', JStr ''high''),
            (''remedy'', JList [''Schedule valve inspection.'', ''Check for internal leakage.'',
                                ''Verify solenoid signal.''])]),
      (73, [(''label'', JStr ''Close to Total Failure''), (''severity'', JStr ''critical''),
            (''remedy'', JList [''System shutdown recommended.'', ''Replace valve immediately.''])])]"

text \<open>
  The request body: \<^verbatim>\<open>request.get_json()\<close> is \<^verbatim>\<open>None\<close> or a JSON object; the value
  under a key is a mapping from feature names to numbers, the shape the interface
  prescribes.
\<close>

type_synonym features = "(string \<times> real) list"

type_synonym json_body = "(string \<times> features) list option"

text \<open>Subscripts raise out of range.\<close>

definition getitem :: "'a list \<Rightarrow> nat \<Rightarrow> exn + 'a" where
  "getitem xs i = (if i < length xs then Inr (xs ! i) else Inl IndexError)"

text \<open>
  \<^verbatim>\<open>pd.DataFrame([features], columns=EXPECTED_FEATURES)\<close>: one row, the columns in the
  given order; a column the mapping lacks is filled with \<^verbatim>\<open>nan\<close>, a key that is no
  column is dropped.
\<close>

definition dataframe_row :: "features \<Rightarrow> string list \<Rightarrow> pyfloat list" where
  "dataframe_row feats columns =
     map (\<lambda>name. case map_of feats name of None \<Rightarrow> NaN | Some v \<Rightarrow> Num v) columns"

text \<open>\<^verbatim>\<open>np.where(model.classes_ == predicted_class)[0][0]\<close>: the first matching index.\<close>

fun where_first :: "int list \<Rightarrow> int \<Rightarrow> exn + nat" where
  "where_first [] c = Inl IndexError"
| "where_first (k # ks) c =
     (if k = c then Inr 0
      else case where_first ks c of Inl e \<Rightarrow> Inl e | Inr i \<Rightarrow> Inr (Suc i))"

text \<open>\<^verbatim>\<open>values[0, :, class_index]\<close>\<close>

definition values_for_class :: "real list list \<Rightarrow> nat \<Rightarrow> exn + real list" where
  "values_for_class vals class_index =
     (if \<forall>r \<in> set vals. class_index < length r then Inr (map (\<lambda>r. r ! class_index) vals)
      else Inl IndexError)"

text \<open>
  What numpy documents of \<^verbatim>\<open>np.argsort\<close>: the result holds every index of the array
  once, in ascending order of the values.  Nothing is said of the order among equal values.
\<close>

definition is_argsort :: "real list \<Rightarrow> nat list \<Rightarrow> bool" where
  "is_argsort a order = (sort order = [0..<length a] \<and> sorted (map (\<lambda>i. a ! i) order))"

text \<open>\<^verbatim>\<open>np.argsort(abs_shap_values)[-3:][::-1]\<close>, for the given sorting routine.\<close>

definition top_indices :: "(real list \<Rightarrow> nat list) \<Rightarrow> real list \<Rightarrow> nat list" where
  "top_indices argsort abs_shap_values =
     (let order = argsort abs_shap_values in rev (drop (length order - 3) order))"

text \<open>The loop over \<^verbatim>\<open>top_indices\<close> that collects the explanations.\<close>

fun explain_features :: "globals \<Rightarrow> pyfloat list \<Rightarrow> nat list \<Rightarrow> exn + string list" where
  "explain_features g row [] = Inr []"
| "explain_features g row (i # rest) =
     (case getitem (EXPECTED_FEATURES g) i of Inl e \<Rightarrow> Inl e | Inr feature_name \<Rightarrow>
      case getitem row i of Inl e \<Rightarrow> Inl e | Inr value \<Rightarrow>
      case generate_text_explanation feature_name value (map_of (normal_ranges g) feature_name) of
        Inl e \<Rightarrow> Inl e | Inr text_explanation \<Rightarrow>
      case explain_features g row rest of Inl e \<Rightarrow> Inl e | Inr explanations \<Rightarrow>
        Inr (text_explanation # explanations))"

text \<open>
  Lines 89 to 110 of the handler: the feature row, the predicted class, its index, the
  confidence, the attribution scores of that class and the explanations.
\<close>

definition analyse ::
  "globals \<Rightarrow> classifier \<Rightarrow> attributor \<Rightarrow> features \<Rightarrow> exn + (int \<times> real \<times> string list)" where
  "analyse g m ex feats =
     (let features_df = dataframe_row feats (EXPECTED_FEATURES g) in
      case model_predict m features_df of Inl e \<Rightarrow> Inl e | Inr predicted_class \<Rightarrow>
      case model_predict_proba m features_df of Inl e \<Rightarrow> Inl e | Inr prediction_proba \<Rightarrow>
      case where_first (model_classes m) predicted_class of Inl e \<Rightarrow> Inl e | Inr class_index \<Rightarrow>
      case getitem prediction_proba class_index of Inl e \<Rightarrow> Inl e | Inr confidence \<Rightarrow>
      case ex features_df of Inl e \<Rightarrow> Inl e | Inr vals \<Rightarrow>
      case values_for_class vals class_index of Inl e \<Rightarrow> Inl e | Inr shap_values_for_class \<Rightarrow>
      case explain_features g features_df
             (top_indices (np_argsort g) (map abs shap_values_for_class)) of
        Inl e \<Rightarrow> Inl e
      | Inr explanations \<Rightarrow> Inr (predicted_class, confidence, explanations))"

text \<open>\<^verbatim>\<open>dict.update\<close> with the three keys of the response.\<close>

definition update_response :: "pydict \<Rightarrow> real \<Rightarrow> int \<Rightarrow> string list \<Rightarrow> pydict" where
  "update_response response confidence predicted_class explanations =
     AList.update ''explanations'' (JList explanations)
       (AList.update ''prediction_code'' (JInt predicted_class)
         (AList.update ''confidence'' (JStr (format_2f (Num confidence))) response))"

text \<open>
  Lines 112 to 118.  \<^verbatim>\<open>PREDICTION_MAP.get(predicted_class, {})\<close> returns the
  dictionary object stored in the map when the code is known, so \<^verbatim>\<open>response.update\<close>
  writes into the map's own entry; for an unknown code the default is a new dictionary
  and the map is left as it is.  The result is the response with status 200 and the
  globals after the call.
\<close>

definition assemble ::
  "globals \<Rightarrow> int \<Rightarrow> real \<Rightarrow> string list \<Rightarrow> (pydict \<times> nat) \<times> globals" where
  "assemble g predicted_class confidence explanations =
     (case map_of (PREDICTION_MAP g) predicted_class of
        None \<Rightarrow> ((update_response [] confidence predicted_class explanations, 200), g)
      | Some descriptor \<Rightarrow>
          (let response = update_response descriptor confidence predicted_class explanations
           in ((response, 200),
               g\<lparr>PREDICTION_MAP := AList.update predicted_class response (PREDICTION_MAP g)\<rparr>)))"

text \<open>The body of the \<^verbatim>\<open>try\<close> block.\<close>

definition predict_try ::
  "globals \<Rightarrow> classifier \<Rightarrow> attributor \<Rightarrow> json_body \<Rightarrow> exn + ((pydict \<times> nat) \<times> globals)" where
  \<open>predict_try g m ex data =
     (case data of
        None \<Rightarrow> Inr (([(''error'', JStr ''Invalid input: "features" key missing'')], 400), g)
      | Some d \<Rightarrow>
          (if d = [] \<or> map_of d ''features'' = None then
             Inr (([(''error'', JStr ''Invalid input: "features" key missing'')], 400), g)
           else
             case analyse g m ex (the (map_of d ''features'')) of
               Inl e \<Rightarrow> Inl e
             | Inr (predicted_class, confidence, explanations) \<Rightarrow>
                 Inr (assemble g predicted_class confidence explanations)))\<close>

text \<open>The handler: the guard on the loaded objects, then the \<^verbatim>\<open>try\<close> block and its \<^verbatim>\<open>except\<close>.\<close>

definition predict :: "globals \<Rightarrow> json_body \<Rightarrow> (pydict \<times> nat) \<times> globals" where
  "predict g data =
     (case (model g, explainer g) of
        (Some m, Some ex) \<Rightarrow>
          (case predict_try g m ex data of
             Inl e \<Rightarrow> (([(''error'', JStr (str_exn e))], 500), g)
           | Inr result \<Rightarrow> result)
      | _ \<Rightarrow> (([(''error'', JStr ''Model or Explainer not loaded'')], 500), g))"


section \<open>Start-up: loading the model (app.py, lines 13 to 20)\<close>

text \<open>
  \<^verbatim>\<open>joblib.load\<close> and \<^verbatim>\<open>shap.TreeExplainer\<close> are parameters: the outcome of
  loading the file, and the construction of the attributor from the loaded classifier.
  Only \<^verbatim>\<open>FileNotFoundError\<close> is caught; it sets both objects to \<^verbatim>\<open>None\<close>.  Any
  other exception leaves the \<^verbatim>\<open>try\<close> statement and ends the import of the module
  (the result \<open>Inl\<close>).
\<close>

definition load_model ::
  "(exn + classifier) \<Rightarrow> (classifier \<Rightarrow> exn + attributor)
     \<Rightarrow> exn + (classifier option \<times> attributor option)" where
  "load_model joblib_load tree_explainer =
     (case joblib_load of
        Inl e \<Rightarrow> (if e = FileNotFoundError then Inr (None, None) else Inl e)
      | Inr m \<Rightarrow>
          (case tree_explainer m of
             Inl e \<Rightarrow> (if e = FileNotFoundError then Inr (None, None) else Inl e)
           | Inr ex \<Rightarrow> Inr (Some m, Some ex)))"

section \<open>Feature Extractor and Range Calculator (app.py, lines 22 to 53)\<close>

text \<open>
  A table with named columns; every row has one cell per column.  Rows are numbered from
  0, as the default index of a DataFrame read without a header is.
\<close>

record frame =
  columns :: "string list"
  rows :: "pyfloat list list"

text \<open>
  The row statistics of pandas on one cycle of readings: the mean and the extrema of no
  reading and the sample standard deviation (one degree of freedom removed) of fewer than
  two readings are \<^verbatim>\<open>nan\<close>.
\<close>

definition row_mean :: "real list \<Rightarrow> pyfloat" where
  "row_mean xs = (if xs = [] then NaN else Num (sum_list xs / real (length xs)))"

definition row_std :: "real list \<Rightarrow> pyfloat" where
  "row_std xs =
     (if length xs < 2 then NaN
      else let m = sum_list xs / real (length xs)
           in Num (sqrt (sum_list (map (\<lambda>x. (x - m)\<^sup>2) xs) / real (length xs - 1))))"

definition row_min :: "real list \<Rightarrow> pyfloat" where
  "row_min xs = (if xs = [] then NaN else Num (fold min (tl xs) (hd xs)))"

definition row_max :: "real list \<Rightarrow> pyfloat" where
  "row_max xs = (if xs = [] then NaN else Num (fold max (tl xs) (hd xs)))"

definition sensor_features :: "string \<Rightarrow> real list list \<Rightarrow> frame" where
  "sensor_features sensor sensor_data =
     \<lparr>columns = [sensor @ ''_mean'', sensor @ ''_std'', sensor @ ''_min'', sensor @ ''_max''],
      rows = map (\<lambda>r. [row_mean r, row_std r, row_min r, row_max r]) sensor_data\<rparr>"

definition sensors_to_process :: "string list" where
  "sensors_to_process = [''PS1'', ''PS2'', ''PS3'', ''TS1'', ''TS2'', ''VS1'']"

text \<open>The loop over the sensors; \<open>read_sensor\<close> is \<^verbatim>\<open>pd.read_csv\<close> on the sensor's file.\<close>

fun all_features :: "(string \<Rightarrow> exn + real list list) \<Rightarrow> string list \<Rightarrow> exn + frame list" where
  "all_features read_sensor [] = Inr []"
| "all_features read_sensor (sensor # sensors) =
     (case read_sensor sensor of Inl e \<Rightarrow> Inl e | Inr sensor_data \<Rightarrow>
      case all_features read_sensor sensors of Inl e \<Rightarrow> Inl e | Inr fs \<Rightarrow>
        Inr (sensor_features sensor sensor_data # fs))"

text \<open>
  \<^verbatim>\<open>pd.concat(all_features, axis=1)\<close>: the tables side by side on the union of their
  row indices (the default outer join).  A table with fewer rows than the longest has its
  cells filled with \<^verbatim>\<open>nan\<close> in the rows it lacks.  Only an empty list of tables
  raises.
\<close>

definition concat_axis1 :: "frame list \<Rightarrow> exn + frame" where
  "concat_axis1 fs =
     (if fs = [] then Inl (Raised ''No objects to concatenate'')
      else Inr \<lparr>columns = concat (map columns fs),
                rows = map (\<lambda>i. concat (map (\<lambda>f. if i < length (rows f) then rows f ! i
                                                 else replicate (length (columns f)) NaN) fs))
                         [0..<fold max (map (\<lambda>f. length (rows f)) fs) 0]\<rparr>)"

definition features_df :: "(string \<Rightarrow> exn + real list list) \<Rightarrow> exn + frame" where
  "features_df read_sensor =
     (case all_features read_sensor sensors_to_process of
        Inl e \<Rightarrow> Inl e
      | Inr fs \<Rightarrow> concat_axis1 fs)"

text \<open>The five columns of \<^verbatim>\<open>profile.txt\<close>.\<close>

record profile_row =
  cooler_condition :: real
  valve_condition :: real
  pump_leakage :: real
  accumulator_pressure :: real
  stable_flag :: real

text \<open>
  \<^verbatim>\<open>features_df[mask]\<close> with a boolean Series: the mask is aligned to the row index
  of the table; a mask that lacks one of the table's rows raises, the surplus of a longer
  mask is dropped.
\<close>

definition boolean_index :: "pyfloat list list \<Rightarrow> bool list \<Rightarrow> exn + pyfloat list list" where
  "boolean_index rs key =
     (if length key < length rs then Inl (Raised ''Unalignable boolean Series provided as indexer'')
      else Inr (map fst (filter snd (zip rs key))))"

fun finite_values :: "pyfloat list \<Rightarrow> real list" where
  "finite_values [] = []"
| "finite_values (Num x # vs) = x # finite_values vs"
| "finite_values (NaN # vs) = finite_values vs"

text \<open>
  \<^verbatim>\<open>Series.quantile(q)\<close> with linear interpolation: missing values are skipped; for
  \<open>n\<close> values in ascending order the result lies at position \<open>q * (n - 1)\<close>, between
  the two neighbouring order statistics; without any value it is \<^verbatim>\<open>nan\<close>.
\<close>

definition quantile :: "pyfloat list \<Rightarrow> real \<Rightarrow> pyfloat" where
  "quantile column q =
     (let xs = sort (finite_values column); n = length xs
      in if n = 0 then NaN
         else let h = q * real (n - 1); lo = nat \<lfloor>h\<rfloor>; hi = min (lo + 1) (n - 1)
              in Num (xs ! lo + (h - real lo) * (xs ! hi - xs ! lo)))"

text \<open>The loop over the columns of the nominal rows.\<close>

definition column_ranges :: "string list \<Rightarrow> pyfloat list list \<Rightarrow> (string \<times> pyfloat \<times> pyfloat) list" where
  "column_ranges cols normal_data =
     map (\<lambda>j. let column = map (\<lambda>r. r ! j) normal_data
               in (cols ! j, (quantile column (5 / 100), quantile column (95 / 100))))
         [0..<length cols]"

text \<open>
  The whole \<^verbatim>\<open>try\<close> block; \<open>read_profile\<close> is \<^verbatim>\<open>pd.read_csv\<close> on the profile.
  The \<^verbatim>\<open>except\<close> clause catches every exception and leaves the range table empty.
\<close>

definition calculate_normal_ranges ::
  "(exn + profile_row list) \<Rightarrow> (string \<Rightarrow> exn + real list list)
     \<Rightarrow> (string \<times> pyfloat \<times> pyfloat) list" where
  "calculate_normal_ranges read_profile read_sensor =
     (case read_profile of Inl e \<Rightarrow> [] | Inr profile \<Rightarrow>
      case features_df read_sensor of Inl e \<Rightarrow> [] | Inr df \<Rightarrow>
      case boolean_index (rows df) (map (\<lambda>p. valve_condition p = 100) profile) of
        Inl e \<Rightarrow> []
      | Inr normal_data \<Rightarrow> column_ranges (columns df) normal_data)"

text \<open>
  The module after its import: the shared objects, or the exception that ended it.  The
  last argument is the \<^verbatim>\<open>argsort\<close> of the numpy that was imported.
\<close>

definition startup ::
  "(exn + classifier) \<Rightarrow> (classifier \<Rightarrow> exn + attributor) \<Rightarrow> (exn + profile_row list)
     \<Rightarrow> (string \<Rightarrow> exn + real list list) \<Rightarrow> (real list \<Rightarrow> nat list) \<Rightarrow> exn + globals" where
  "startup joblib_load tree_explainer read_profile read_sensor argsort =
     (case load_model joblib_load tree_explainer of
        Inl e \<Rightarrow> Inl e
      | Inr (m, ex) \<Rightarrow>
          (let ranges = calculate_normal_ranges read_profile read_sensor
           in Inr \<lparr>model = m, explainer = ex, normal_ranges = ranges,
                   EXPECTED_FEATURES = map fst ranges,
                   PREDICTION_MAP = PREDICTION_MAP_initial,
                   np_argsort = argsort\<rparr>))"

section \<open>A small installation, for evaluating the model\<close>

text \<open>
  One sorting routine that meets what \<open>is_argsort\<close> asks: a stable sort of the indices.
  It stands for numpy in the example installation only; no property below depends on how
  it orders equal values.
\<close>

definition stable_argsort :: "real list \<Rightarrow> nat list" where
  "stable_argsort xs = sort_key (\<lambda>i. xs ! i) [0..<length xs]"

definition example_classifier :: classifier where
  "example_classifier =
     \<lparr>model_classes = [73, 80, 90, 100],
      model_predict = (\<lambda>row. Inr 90),
      model_predict_proba = (\<lambda>row. Inr [1 / 10, 6 / 10, 3 / 10, 0])\<rparr>"

definition example_matrix :: "real list list" where
  "example_matrix = [[0, 0, 1, 0], [0, 0, - 5, 0], [0, 0, 3, 0], [0, 0, - 2, 0]]"

definition example_attributor :: attributor where
  "example_attributor = (\<lambda>row. Inr example_matrix)"

definition example_ranges :: "(string \<times> pyfloat \<times> pyfloat) list" where
  "example_ranges =
     [(''PS1_mean'', (Num 10, Num 20)), (''PS1_std'', (Num 1, Num 2)),
      (''PS1_min'', (Num 8, Num 12)), (''PS1_max'', (Num 30, Num 40))]"

definition example_globals :: globals where
  "example_globals =
     \<lparr>model = Some example_classifier, explainer = Some example_attributor,
      normal_ranges = example_ranges, EXPECTED_FEATURES = map fst example_ranges,
      PREDICTION_MAP = PREDICTION_MAP_initial, np_argsort = stable_argsort\<rparr>"

definition example_features :: features where
  "example_features = [(''PS1_mean'', 15), (''PS1_std'', 3), (''PS1_min'', 5), (''PS1_max'', 50)]"

definition example_explanations :: "string list" where
  "example_explanations =
     [high_statement ''Std'' ''Ps1'' (Num 3) (Num 1) (Num 2),
      low_statement ''Min'' ''Ps1'' (Num 5) (Num 8) (Num 12),
      high_statement ''Max'' ''Ps1'' (Num 50) (Num 30) (Num 40)]"

text \<open>A classifier whose prediction is a code without descriptor.\<close>

definition unlisted_classifier :: classifier where
  "unlisted_classifier =
     \<lparr>model_classes = [95, 100],
      model_predict = (\<lambda>row. Inr 95),
      model_predict_proba = (\<lambda>row. Inr [1, 0])\<rparr>"

text \<open>A classifier that refuses a row with a missing value.\<close>

definition strict_classifier :: classifier where
  "strict_classifier =
     \<lparr>model_classes = [73, 80, 90, 100],
      model_predict = (\<lambda>row. if NaN \<in> set row then Inl (Raised ''Input contains NaN'') else Inr 90),
      model_predict_proba = (\<lambda>row. Inr [1 / 10, 6 / 10, 3 / 10, 0])\<rparr>"

text \<open>Sensor files with two cycles for the first sensor and one cycle for the others.\<close>

definition uneven_sensors :: "string \<Rightarrow> exn + real list list" where
  "uneven_sensors sensor = (if sensor = ''PS1'' then Inr [[1, 2, 3], [4, 5, 6]] else Inr [[1, 2, 3]])"

definition even_sensors :: "string \<Rightarrow> exn + real list list" where
  "even_sensors sensor = Inr [[1, 2, 3], [4, 5, 6]]"

definition profile_of :: "real \<Rightarrow> profile_row" where
  "profile_of v = \<lparr>cooler_condition = 3, valve_condition = v, pump_leakage = 0,
                    accumulator_pressure = 130, stable_flag = 0\<rparr>"

definition example_request :: json_body where
  "example_request = Some [(''features'', example_features)]"

definition example_response :: pydict where
  "example_response =
     [(''label'', JStr ''Small Lag''), (''severity'', JStr ''medium''),
      (''remedy'', JList [''Inspect valve for contamination.'', ''Check pilot pressure.'']),
      (''confidence'', JStr ''0.30''), (''prediction_code'', JInt 90),
      (''explanations'', JList example_explanations)]"

definition example_after :: globals where
  "example_after =
     example_globals\<lparr>PREDICTION_MAP := AList.update 90 example_response PREDICTION_MAP_initial\<rparr>"

definition unlisted_globals :: globals where
  "unlisted_globals = example_globals\<lparr>model := Some unlisted_classifier\<rparr>"

definition unlisted_explanations :: "string list" where
  "unlisted_explanations =
     [high_statement ''Max'' ''Ps1'' (Num 50) (Num 30) (Num 40),
      low_statement ''Min'' ''Ps1'' (Num 5) (Num 8) (Num 12),
      high_statement ''Std'' ''Ps1'' (Num 3) (Num 1) (Num 2)]"

definition strict_globals :: globals where
  "strict_globals = example_globals\<lparr>model := Some strict_classifier\<rparr>"

text \<open>A request that omits the feature \<open>PS1_std\<close>.\<close>

definition partial_features :: features where
  "partial_features = [(''PS1_mean'', 15), (''PS1_min'', 5), (''PS1_max'', 50)]"

definition partial_explanations :: "string list" where
  "partial_explanations =
     [within_statement ''Std'' ''Ps1'' NaN,
      low_statement ''Min'' ''Ps1'' (Num 5) (Num 8) (Num 12),
      high_statement ''Max'' ''Ps1'' (Num 50) (Num 30) (Num 40)]"

definition uneven_frames :: "frame list" where
  "uneven_frames =
     [sensor_features ''PS1'' [[1, 2, 3], [4, 5, 6]], sensor_features ''PS2'' [[1, 2, 3]],
      sensor_features ''PS3'' [[1, 2, 3]], sensor_features ''TS1'' [[1, 2, 3]],
      sensor_features ''TS2'' [[1, 2, 3]], sensor_features ''VS1'' [[1, 2, 3]]]"

definition feature_columns :: "string list" where
  "feature_columns =
     [''PS1_mean'', ''PS1_std'', ''PS1_min'', ''PS1_max'',
      ''PS2_mean'', ''PS2_std'', ''PS2_min'', ''PS2_max'',
      ''PS3_mean'', ''PS3_std'', ''PS3_min'', ''PS3_max'',
      ''TS1_mean'', ''TS1_std'', ''TS1_min'', ''TS1_max'',
      ''TS2_mean'', ''TS2_std'', ''TS2_min'', ''TS2_max'',
      ''VS1_mean'', ''VS1_std'', ''VS1_min'', ''VS1_max'']"

definition even_rows :: "pyfloat list list" where
  "even_rows =
     [[Num 2, Num 1, Num 1, Num 3, Num 2, Num 1, Num 1, Num 3,
       Num 2, Num 1, Num 1, Num 3, Num 2, Num 1, Num 1, Num 3,
       Num 2, Num 1, Num 1, Num 3, Num 2, Num 1, Num 1, Num 3],
      [Num 5, Num 1, Num 4, Num 6, Num 5, Num 1, Num 4, Num 6,
       Num 5, Num 1, Num 4, Num 6, Num 5, Num 1, Num 4, Num 6,
       Num 5, Num 1, Num 4, Num 6, Num 5, Num 1, Num 4, Num 6]]"

text \<open>The explanations of the example installation for a request without any feature.\<close>

definition empty_request_explanations :: "string list" where
  "empty_request_explanations =
     [within_statement ''Std'' ''Ps1'' NaN, within_statement ''Min'' ''Ps1'' NaN,
      within_statement ''Max'' ''Ps1'' NaN]"

section \<open>Properties of the Explanation Generator\<close>

lemma sublist_mid: "sublist t (a @ t @ b)"
  by (rule sublist_appendI)

lemma low_statement_contains:
  "sublist ''unusually **low**'' (low_statement metric sensor v lo hi)"
  "sublist (format_2f v) (low_statement metric sensor v lo hi)"
  "sublist (format_2f lo @ '' - '' @ format_2f hi) (low_statement metric sensor v lo hi)"
proof -
  show "sublist ''unusually **low**'' (low_statement metric sensor v lo hi)"
    unfolding low_statement_def
    using sublist_appendI [of "''unusually **low**''" "''The **'' @ metric @ '' of '' @ sensor @ ''** was ''"
        "'' ('' @ format_2f v @ ''), falling below the normal range of ''
     @ format_2f lo @ '' - '' @ format_2f hi
     @ ''. This could indicate a leak or a loss of system pressure.''"]
    by simp
  show "sublist (format_2f v) (low_statement metric sensor v lo hi)"
    unfolding low_statement_def
    using sublist_appendI [of "format_2f v" "''The **'' @ metric @ '' of '' @ sensor @ ''** was unusually **low** (''"
        "''), falling below the normal range of ''
     @ format_2f lo @ '' - '' @ format_2f hi
     @ ''. This could indicate a leak or a loss of system pressure.''"]
    by simp
  show "sublist (format_2f lo @ '' - '' @ format_2f hi) (low_statement metric sensor v lo hi)"
    unfolding low_statement_def
    using sublist_appendI [of "format_2f lo @ '' - '' @ format_2f hi" "''The **'' @ metric @ '' of '' @ sensor @ ''** was unusually **low** ('' @ format_2f v @ ''), falling below the normal range of ''"
        "''. This could indicate a leak or a loss of system pressure.''"]
    by simp
qed

lemma high_statement_contains:
  "sublist ''unusually **high**'' (high_statement metric sensor v lo hi)"
  "sublist (format_2f v) (high_statement metric sensor v lo hi)"
  "sublist (format_2f lo @ '' - '' @ format_2f hi) (high_statement metric sensor v lo hi)"
proof -
  show "sublist ''unusually **high**'' (high_statement metric sensor v lo hi)"
    unfolding high_statement_def
    using sublist_appendI [of "''unusually **high**''" "''The **'' @ metric @ '' of '' @ sensor @ ''** was ''"
        "'' ('' @ format_2f v @ ''), exceeding the normal range of ''
     @ format_2f lo @ '' - '' @ format_2f hi
     @ ''. This might suggest a blockage or excessive system strain.''"]
    by simp
  show "sublist (format_2f v) (high_statement metric sensor v lo hi)"
    unfolding high_statement_def
    using sublist_appendI [of "format_2f v" "''The **'' @ metric @ '' of '' @ sensor @ ''** was unusually **high** (''"
        "''), exceeding the normal range of ''
     @ format_2f lo @ '' - '' @ format_2f hi
     @ ''. This might suggest a blockage or excessive system strain.''"]
    by simp
  show "sublist (format_2f lo @ '' - '' @ format_2f hi) (high_statement metric sensor v lo hi)"
    unfolding high_statement_def
    using sublist_appendI [of "format_2f lo @ '' - '' @ format_2f hi" "''The **'' @ metric @ '' of '' @ sensor @ ''** was unusually **high** ('' @ format_2f v @ ''), exceeding the normal range of ''"
        "''. This might suggest a blockage or excessive system strain.''"]
    by simp
qed

lemma within_statement_contains:
  "sublist ''within its normal range'' (within_statement metric sensor v)"
  unfolding within_statement_def
  using sublist_appendI [of "''within its normal range''" "''The **'' @ metric @ '' of '' @ sensor @ ''** ('' @ format_2f v @ '') was ''"
      "'' but still a key factor in the model's decision, possibly due to its interaction with other sensor readings.''"]
  by simp

lemma generate_parts:
  assumes "feature_parts feature_name = sensor # rest"
  shows "generate_text_explanation feature_name v r =
     (case r of None \<Rightarrow> Inr (generic_statement (str_join '' '' rest) sensor)
      | Some (lo, hi) \<Rightarrow>
          if float_lt v lo then Inr (low_statement (str_join '' '' rest) sensor v lo hi)
          else if float_gt v hi then Inr (high_statement (str_join '' '' rest) sensor v lo hi)
          else Inr (within_statement (str_join '' '' rest) sensor v))"
  using assms by (simp add: generate_text_explanation_def split: option.splits)

text \<open>
  Claim C10.  When the observed value equals the lower or the upper bound of a normal range
  (a range whose lower bound is at most its upper bound), the Explanation Generator takes
  the within-range branch: both comparisons of the function are strict.
\<close>

theorem boundary_value_is_within_range:
  assumes "float_le lower_bound upper_bound"
    and "value = lower_bound \<or> value = upper_bound"
    and "feature_parts feature_name = sensor # rest"
  shows "generate_text_explanation feature_name value (Some (lower_bound, upper_bound)) =
           Inr (within_statement (str_join '' '' rest) sensor value)"
proof -
  obtain a b where ab: "lower_bound = Num a" "upper_bound = Num b" "a \<le> b"
    using assms(1) by (cases lower_bound; cases upper_bound) auto
  from assms(2) ab have "\<not> float_lt value lower_bound" "\<not> float_gt value upper_bound"
    by (auto simp: float_gt_def)
  then show ?thesis by (simp add: generate_parts [OF assms(3)])
qed

lemma parts_PS1_mean: "feature_parts ''PS1_mean'' = [''Ps1'', ''Mean'']"
  by code_simp

lemma parts_empty: "feature_parts '''' = []"
  by code_simp

lemma format_2f_10: "format_2f (Num 10) = ''10.00''"
  by (simp add: format_2f_def round_half_even_def str_nat.simps digit_def)

theorem boundary_value_is_within_range_witness:
  "float_le (Num 10) (Num 20) \<and> feature_parts ''PS1_mean'' = ''Ps1'' # [''Mean'']
   \<and> generate_text_explanation ''PS1_mean'' (Num 10) (Some (Num 10, Num 20)) =
       Inr ''The **Mean of Ps1** (10.00) was within its normal range but still a key factor in the model's decision, possibly due to its interaction with other sensor readings.''"
  using boundary_value_is_within_range [of "Num 10" "Num 20" "Num 10" "''PS1_mean''" "''Ps1''" "[''Mean'']"]
  by (simp add: parts_PS1_mean within_statement_def format_2f_10)

text \<open>
  Claim C2, as the code has it.  For a feature name with at least one token: without a
  range the result is the generic statement, which renders no number; with a range the
  result is the low statement when the value is below the lower bound, the high statement
  when it is not below the lower bound and above the upper bound, and the within statement
  otherwise.  The low and the high statement carry the phrases \<open>unusually **low**\<close> and
  \<open>unusually **high**\<close> (with the emphasis marks of the template), the rendered value and
  the rendered range.
\<close>

theorem explanation_statement_by_range:
  assumes "feature_parts feature_name = sensor # rest"
  shows "generate_text_explanation feature_name value None =
           Inr (generic_statement (str_join '' '' rest) sensor)
       \<and> (float_lt value lo \<longrightarrow>
            (\<exists>text. generate_text_explanation feature_name value (Some (lo, hi)) = Inr text
               \<and> text = low_statement (str_join '' '' rest) sensor value lo hi
               \<and> sublist ''unusually **low**'' text \<and> sublist (format_2f value) text
               \<and> sublist (format_2f lo @ '' - '' @ format_2f hi) text))
       \<and> (\<not> float_lt value lo \<and> float_gt value hi \<longrightarrow>
            (\<exists>text. generate_text_explanation feature_name value (Some (lo, hi)) = Inr text
               \<and> text = high_statement (str_join '' '' rest) sensor value lo hi
               \<and> sublist ''unusually **high**'' text \<and> sublist (format_2f value) text
               \<and> sublist (format_2f lo @ '' - '' @ format_2f hi) text))
       \<and> (\<not> float_lt value lo \<and> \<not> float_gt value hi \<longrightarrow>
            (\<exists>text. generate_text_explanation feature_name value (Some (lo, hi)) = Inr text
               \<and> text = within_statement (str_join '' '' rest) sensor value
               \<and> sublist ''within its normal range'' text))"
  using low_statement_contains [where metric = "str_join '' '' rest" and sensor = sensor
      and v = "value" and lo = lo and hi = hi]
    high_statement_contains [where metric = "str_join '' '' rest" and sensor = sensor
      and v = "value" and lo = lo and hi = hi]
    within_statement_contains [where metric = "str_join '' '' rest" and sensor = sensor
      and v = "value"]
  by (simp add: generate_parts [OF assms])


theorem explanation_statement_by_range_witness:
  "feature_parts ''PS1_mean'' = ''Ps1'' # [''Mean''] \<and> float_lt (Num 5) (Num 10)
   \<and> generate_text_explanation ''PS1_mean'' (Num 5) (Some (Num 10, Num 20)) =
        Inr (low_statement ''Mean'' ''Ps1'' (Num 5) (Num 10) (Num 20))
   \<and> \<not> float_lt (Num 50) (Num 10) \<and> float_gt (Num 50) (Num 20)
   \<and> generate_text_explanation ''PS1_mean'' (Num 50) (Some (Num 10, Num 20)) =
        Inr (high_statement ''Mean'' ''Ps1'' (Num 50) (Num 10) (Num 20))
   \<and> \<not> float_lt (Num 15) (Num 10) \<and> \<not> float_gt (Num 15) (Num 20)
   \<and> generate_text_explanation ''PS1_mean'' (Num 15) (Some (Num 10, Num 20)) =
        Inr (within_statement ''Mean'' ''Ps1'' (Num 15))
   \<and> generate_text_explanation ''PS1_mean'' (Num 15) None = Inr ''The Mean of Ps1 was a significant factor.''"
  using explanation_statement_by_range [of "''PS1_mean''" "''Ps1''" "[''Mean'']" "Num 5" "Num 10" "Num 20"]
    explanation_statement_by_range [of "''PS1_mean''" "''Ps1''" "[''Mean'']" "Num 50" "Num 10" "Num 20"]
    explanation_statement_by_range [of "''PS1_mean''" "''Ps1''" "[''Mean'']" "Num 15" "Num 10" "Num 20"]
  by (simp add: parts_PS1_mean float_gt_def generic_statement_def)

lemma format_2f_5: "format_2f (Num 5) = ''5.00''"
  by (simp add: format_2f_def round_half_even_def str_nat.simps digit_def)

lemma format_2f_20: "format_2f (Num 20) = ''20.00''"
  by (simp add: format_2f_def round_half_even_def str_nat.simps digit_def)

lemma low_text_5_10_20:
  "generate_text_explanation ''PS1_mean'' (Num 5) (Some (Num 10, Num 20)) =
     Inr ''The **Mean of Ps1** was unusually **low** (5.00), falling below the normal range of 10.00 - 20.00. This could indicate a leak or a loss of system pressure.''"
  by (simp add: generate_parts [OF parts_PS1_mean] low_statement_def format_2f_5 format_2f_10
      format_2f_20)

lemma no_plain_unusually_low:
  "\<not> sublist ''unusually low'' ''The **Mean of Ps1** was unusually **low** (5.00), falling below the normal range of 10.00 - 20.00. This could indicate a leak or a loss of system pressure.''"
  by code_simp

lemma empty_name_raises: "generate_text_explanation '''' v r = Inl IndexError"
  by (simp add: generate_text_explanation_def parts_empty)

text \<open>
  The statement for a value below the range does not contain the plain phrase
  \<open>unusually low\<close>: the template sets \<open>low\<close> between emphasis marks.  A feature name
  without any token makes the function raise instead of returning a statement.
\<close>

theorem explanation_plain_phrase_counterexample:
  "float_lt (Num 5) (Num 10)
   \<and> generate_text_explanation ''PS1_mean'' (Num 5) (Some (Num 10, Num 20)) =
       Inr ''The **Mean of Ps1** was unusually **low** (5.00), falling below the normal range of 10.00 - 20.00. This could indicate a leak or a loss of system pressure.''
   \<and> \<not> sublist ''unusually low''
         ''The **Mean of Ps1** was unusually **low** (5.00), falling below the normal range of 10.00 - 20.00. This could indicate a leak or a loss of system pressure.''
   \<and> generate_text_explanation '''' (Num 5) (Some (Num 10, Num 20)) = Inl IndexError"
  using no_plain_unusually_low
  by (simp add: low_text_5_10_20 empty_name_raises)



section \<open>The stages of the Prediction Service\<close>

lemma where_first_Inr:
  "where_first ks c = Inr i \<Longrightarrow> i < length ks \<and> ks ! i = c \<and> (\<forall>j<i. ks ! j \<noteq> c)"
proof (induction ks arbitrary: i)
  case Nil
  then show ?case by simp
next
  case (Cons k ks)
  show ?case
  proof (cases "k = c")
    case True
    with Cons.prems show ?thesis by simp
  next
    case False
    with Cons.prems obtain i' where i': "where_first ks c = Inr i'" "i = Suc i'"
      by (auto split: sum.splits)
    from Cons.IH [OF i'(1)] False i'(2) show ?thesis
      by (auto simp: less_Suc_eq_0_disj)
  qed
qed

lemma getitem_Inr: "getitem xs i = Inr x \<Longrightarrow> i < length xs \<and> x = xs ! i"
  by (auto simp: getitem_def split: if_splits)

lemma values_for_class_Inr:
  "values_for_class vals ci = Inr scores \<Longrightarrow> scores = map (\<lambda>r. r ! ci) vals"
  by (auto simp: values_for_class_def split: if_splits)

lemma analyse_Inr:
  assumes "analyse g m ex feats = Inr (c, conf, es)"
  shows "\<exists>proba ci vals scores.
           model_predict m (dataframe_row feats (EXPECTED_FEATURES g)) = Inr c
         \<and> model_predict_proba m (dataframe_row feats (EXPECTED_FEATURES g)) = Inr proba
         \<and> where_first (model_classes m) c = Inr ci
         \<and> getitem proba ci = Inr conf
         \<and> ex (dataframe_row feats (EXPECTED_FEATURES g)) = Inr vals
         \<and> values_for_class vals ci = Inr scores
         \<and> explain_features g (dataframe_row feats (EXPECTED_FEATURES g))
              (top_indices (np_argsort g) (map abs scores)) = Inr es"
  using assms by (auto simp: analyse_def Let_def split: sum.splits)

lemma predict_not_loaded:
  "model g = None \<or> explainer g = None \<Longrightarrow>
     predict g data = (([(''error'', JStr ''Model or Explainer not loaded'')], 500), g)"
  by (auto simp: predict_def split: option.splits)

lemma assemble_status: "snd (fst (assemble g c conf es)) = 200"
  by (simp add: assemble_def Let_def split: option.splits)

lemma predict_loaded:
  assumes "model g = Some m" and "explainer g = Some ex"
  shows "predict g data =
     (case data of
        None \<Rightarrow> (([(''error'', JStr ''Invalid input: \"features\" key missing'')], 400), g)
      | Some d \<Rightarrow>
         (case map_of d ''features'' of
            None \<Rightarrow> (([(''error'', JStr ''Invalid input: \"features\" key missing'')], 400), g)
          | Some feats \<Rightarrow>
             (case analyse g m ex feats of
                Inl e \<Rightarrow> (([(''error'', JStr (str_exn e))], 500), g)
              | Inr (c, conf, es) \<Rightarrow> assemble g c conf es)))"
  using assms by (auto simp: predict_def predict_try_def split: option.splits sum.splits)

lemma predict_200:
  assumes "predict g data = ((body, 200), g')"
  shows "\<exists>m ex d feats c conf es. model g = Some m \<and> explainer g = Some ex \<and> data = Some d
           \<and> map_of d ''features'' = Some feats \<and> analyse g m ex feats = Inr (c, conf, es)
           \<and> assemble g c conf es = ((body, 200), g')"
proof (cases "model g")
  case None
  with assms show ?thesis by (simp add: predict_not_loaded)
next
  case (Some m)
  show ?thesis
  proof (cases "explainer g")
    case None
    with assms show ?thesis by (simp add: predict_not_loaded)
  next
    case (Some ex)
    from assms show ?thesis
      unfolding predict_loaded [OF \<open>model g = Some m\<close> Some]
      using \<open>model g = Some m\<close> Some
      by (auto split: option.splits sum.splits)
  qed
qed

lemma map_of_update_response:
  "map_of (update_response r conf c es) ''confidence'' = Some (JStr (format_2f (Num conf)))"
  "map_of (update_response r conf c es) ''prediction_code'' = Some (JInt c)"
  "map_of (update_response r conf c es) ''explanations'' = Some (JList es)"
  by (simp_all add: update_response_def update_conv')

lemma assemble_body:
  "assemble g c conf es = ((body, st), g') \<Longrightarrow>
     \<exists>r. body = update_response r conf c es"
  by (auto simp: assemble_def Let_def split: option.splits)

section \<open>Ranking by attribution magnitude\<close>

lemma is_argsort_facts:
  assumes "is_argsort a order"
  shows "length order = length a" and "set order = {0..<length a}" and "distinct order"
    and "sorted_wrt (\<lambda>i j. a ! i \<le> a ! j) order"
proof -
  from assms have s: "sort order = [0..<length a]" and m: "sorted (map (\<lambda>i. a ! i) order)"
    by (simp_all add: is_argsort_def)
  have "length (sort order) = length order" by simp
  then show "length order = length a" unfolding s by simp
  have "set (sort order) = set order" by simp
  then show "set order = {0..<length a}" unfolding s by simp
  have "distinct (sort order) = distinct order" by simp
  then show "distinct order" unfolding s by simp
  from m show "sorted_wrt (\<lambda>i j. a ! i \<le> a ! j) order" by (simp add: sorted_map)
qed

lemma length_top_indices:
  assumes "is_argsort a (f a)"
  shows "length (top_indices f a) = min 3 (length a)"
  by (simp add: top_indices_def Let_def is_argsort_facts(1) [OF assms])

lemma set_top_indices:
  assumes "is_argsort a (f a)"
  shows "set (top_indices f a) \<subseteq> {0..<length a}"
proof -
  have "set (drop (length a - 3) (f a)) \<subseteq> set (f a)"
    by (rule set_drop_subset)
  then show ?thesis
    by (simp add: top_indices_def Let_def is_argsort_facts(1,2) [OF assms])
qed

lemma distinct_top_indices:
  assumes "is_argsort a (f a)"
  shows "distinct (top_indices f a)"
  by (simp add: top_indices_def Let_def is_argsort_facts(3) [OF assms])

lemma sorted_top_indices:
  assumes "is_argsort a (f a)"
  shows "sorted_wrt (\<lambda>i j. a ! j \<le> a ! i) (top_indices f a)"
proof -
  have "sorted_wrt (\<lambda>i j. a ! i \<le> a ! j) (take (length a - 3) (f a) @ drop (length a - 3) (f a))"
    using is_argsort_facts(4) [OF assms] by simp
  then have "sorted_wrt (\<lambda>i j. a ! i \<le> a ! j) (drop (length a - 3) (f a))"
    unfolding sorted_wrt_append by blast
  then show ?thesis
    by (simp add: top_indices_def Let_def is_argsort_facts(1) [OF assms] sorted_wrt_rev)
qed

lemma top_indices_dominate:
  assumes "is_argsort a (f a)"
    and "i \<in> set (top_indices f a)" and "j < length a" and "j \<notin> set (top_indices f a)"
  shows "a ! j \<le> a ! i"
proof -
  let ?k = "length a - 3"
  have i: "i \<in> set (drop ?k (f a))"
    using assms(2) by (simp add: top_indices_def Let_def is_argsort_facts(1) [OF assms(1)])
  have "j \<notin> set (drop ?k (f a))"
    using assms(4) by (simp add: top_indices_def Let_def is_argsort_facts(1) [OF assms(1)])
  moreover have "j \<in> set (f a)"
    using assms(3) by (simp add: is_argsort_facts(2) [OF assms(1)])
  moreover have "set (f a) = set (take ?k (f a)) \<union> set (drop ?k (f a))"
    by (metis append_take_drop_id set_append)
  ultimately have j: "j \<in> set (take ?k (f a))" by blast
  have "sorted_wrt (\<lambda>i j. a ! i \<le> a ! j) (take ?k (f a) @ drop ?k (f a))"
    using is_argsort_facts(4) [OF assms(1)] by simp
  with i j show ?thesis unfolding sorted_wrt_append by blast
qed

text \<open>The stable sort of the indices is one admissible sorting routine.\<close>

lemma set_stable_argsort: "set (stable_argsort a) = {0..<length a}"
  by (simp add: stable_argsort_def)

lemma distinct_stable_argsort: "distinct (stable_argsort a)"
  by (simp add: stable_argsort_def)

lemma is_argsort_stable: "is_argsort a (stable_argsort a)"
proof -
  have "mset [0..<length a] = mset (stable_argsort a)"
    by (simp add: stable_argsort_def)
  then have "sort (stable_argsort a) = [0..<length a]"
    by (rule properties_for_sort) simp
  moreover have "sorted (map (\<lambda>i. a ! i) (stable_argsort a))"
    by (simp add: stable_argsort_def)
  ultimately show ?thesis by (simp add: is_argsort_def)
qed

lemma filter_same_key:
  assumes "distinct zs" and "k \<in> set zs" and "inj_on f (set zs)"
  shows "filter (\<lambda>x. f k = f x) zs = [k]"
  using assms
proof (induction zs)
  case Nil
  then show ?case by simp
next
  case (Cons z zs)
  show ?case
  proof (cases "z = k")
    case True
    have "\<forall>x \<in> set zs. f k \<noteq> f x"
      using Cons.prems True by (auto simp: inj_on_def)
    then have "filter (\<lambda>x. f k = f x) zs = []"
      by (simp add: filter_empty_conv)
    with True show ?thesis by simp
  next
    case False
    with Cons.prems have "k \<in> set zs" "inj_on f (set zs)" "distinct zs" by auto
    with Cons.IH have "filter (\<lambda>x. f k = f x) zs = [k]" by blast
    moreover have "f k \<noteq> f z"
      using Cons.prems False by (auto simp: inj_on_def)
    ultimately show ?thesis by simp
  qed
qed

lemma stable_argsort_swap:
  assumes "distinct a" and "i < length a" and "j < length a"
  shows "stable_argsort (a[i := a ! j, j := a ! i]) =
           map (\<lambda>k. if k = i then j else if k = j then i else k) (stable_argsort a)"
proof -
  define s where "s = (\<lambda>k. if k = i then j else if k = j then i else k)"
  define a' where "a' = a[i := a ! j, j := a ! i]"
  define n where "n = length a"
  define ys where "ys = map s (stable_argsort a)"
  have len': "length a' = n" by (simp add: a'_def n_def)
  have invol: "s (s k) = k" for k by (simp add: s_def)
  have inj: "inj s" by (rule inj_on_inverseI [where g = s]) (rule invol)
  have key: "a' ! (s k) = a ! k" if "k < n" for k
  proof -
    consider "k = i" | "k \<noteq> i" "k = j" | "k \<noteq> i" "k \<noteq> j" by blast
    then show ?thesis
    proof cases
      case 1
      then show ?thesis using assms(2,3) by (simp add: s_def a'_def nth_list_update)
    next
      case 2
      then show ?thesis using assms(2,3) by (simp add: s_def a'_def nth_list_update)
    next
      case 3
      then show ?thesis using that by (simp add: s_def a'_def nth_list_update)
    qed
  qed
  have range: "s k < n" if "k < n" for k using that assms(2,3) by (simp add: s_def n_def)
  have set_ys: "set ys = {0..<n}"
  proof
    show "set ys \<subseteq> {0..<n}"
      using range by (auto simp: ys_def set_stable_argsort n_def)
    show "{0..<n} \<subseteq> set ys"
    proof
      fix k assume "k \<in> {0..<n}"
      then have "s k \<in> set (stable_argsort a)" using range [of k] by (simp add: set_stable_argsort n_def)
      then have "s (s k) \<in> set ys" unfolding ys_def set_map by (rule imageI)
      then show "k \<in> set ys" by (simp add: invol)
    qed
  qed
  have dist_ys: "distinct ys"
    unfolding ys_def distinct_map using inj distinct_stable_argsort [of a]
    by (simp add: inj_on_def)
  have "set ys = set [0..<n]" by (simp add: set_ys)
  then have m: "mset ys = mset [0..<n]"
    using set_eq_iff_mset_eq_distinct [of ys "[0..<n]"] dist_ys by simp
  have dist': "distinct a'" unfolding a'_def using assms by simp
  have inj': "inj_on (\<lambda>x. a' ! x) {0..<n}"
    using dist' len' by (auto simp: inj_on_def nth_eq_iff_index_eq)
  have f: "filter (\<lambda>x. a' ! k = a' ! x) ys = filter (\<lambda>x. a' ! k = a' ! x) [0..<n]"
    if "k \<in> set ys" for k
  proof -
    have "inj_on (\<lambda>x. a' ! x) (set ys)" using inj' by (simp add: set_ys)
    then have 1: "filter (\<lambda>x. a' ! k = a' ! x) ys = [k]"
      by (rule filter_same_key [OF dist_ys that])
    have "k \<in> set [0..<n]" "inj_on (\<lambda>x. a' ! x) (set [0..<n])"
      using that inj' by (simp_all add: set_ys)
    then have 2: "filter (\<lambda>x. a' ! k = a' ! x) [0..<n] = [k]"
      by (intro filter_same_key) simp_all
    from 1 2 show ?thesis by simp
  qed
  have "\<forall>k \<in> set (stable_argsort a). a' ! (s k) = a ! k"
    using key by (simp add: set_stable_argsort n_def)
  then have "map (\<lambda>x. a' ! x) ys = map (\<lambda>x. a ! x) (stable_argsort a)"
    by (simp add: ys_def)
  moreover have "sorted (map (\<lambda>x. a ! x) (stable_argsort a))"
    by (simp add: stable_argsort_def)
  ultimately have srt: "sorted (map (\<lambda>x. a' ! x) ys)" by simp
  have "sort_key (\<lambda>x. a' ! x) [0..<n] = ys"
    by (rule properties_for_sort_key [OF m f srt])
  then show ?thesis by (simp add: stable_argsort_def len' a'_def [symmetric] ys_def s_def)
qed

text \<open>With pairwise different values there is one admissible order only.\<close>

lemma argsort_unique:
  assumes "distinct a" and "is_argsort a order"
  shows "order = stable_argsort a"
proof -
  from assms(2) have s: "sort order = [0..<length a]" and srt: "sorted (map (\<lambda>i. a ! i) order)"
    by (simp_all add: is_argsort_def)
  have "mset (sort order) = mset order" by simp
  then have m: "mset order = mset [0..<length a]" unfolding s by simp
  have inj: "inj_on (\<lambda>i. a ! i) {0..<length a}"
    using assms(1) by (auto simp: inj_on_def nth_eq_iff_index_eq)
  have f: "filter (\<lambda>x. a ! k = a ! x) order = filter (\<lambda>x. a ! k = a ! x) [0..<length a]"
    if "k \<in> set order" for k
  proof -
    have "inj_on (\<lambda>i. a ! i) (set order)"
      using inj by (simp add: is_argsort_facts(2) [OF assms(2)])
    then have 1: "filter (\<lambda>x. a ! k = a ! x) order = [k]"
      by (rule filter_same_key [OF is_argsort_facts(3) [OF assms(2)] that])
    have "k \<in> set [0..<length a]" "inj_on (\<lambda>i. a ! i) (set [0..<length a])"
      using that inj by (simp_all add: is_argsort_facts(2) [OF assms(2)])
    then have 2: "filter (\<lambda>x. a ! k = a ! x) [0..<length a] = [k]"
      by (intro filter_same_key) simp_all
    from 1 2 show ?thesis by simp
  qed
  have "sort_key (\<lambda>i. a ! i) [0..<length a] = order"
    by (rule properties_for_sort_key [OF m f srt])
  then show ?thesis by (simp add: stable_argsort_def)
qed

lemma top_indices_swap:
  assumes "distinct a" and "i < length a" and "j < length a"
    and "is_argsort a (f a)"
    and "is_argsort (a[i := a ! j, j := a ! i]) (f (a[i := a ! j, j := a ! i]))"
  shows "top_indices f (a[i := a ! j, j := a ! i]) =
           map (\<lambda>k. if k = i then j else if k = j then i else k) (top_indices f a)"
proof -
  have d': "distinct (a[i := a ! j, j := a ! i])" using assms(1,2,3) by simp
  have 1: "f a = stable_argsort a" by (rule argsort_unique [OF assms(1,4)])
  have 2: "f (a[i := a ! j, j := a ! i]) = stable_argsort (a[i := a ! j, j := a ! i])"
    by (rule argsort_unique [OF d' assms(5)])
  have "length (stable_argsort a) = length a" by (simp add: stable_argsort_def)
  then show ?thesis
    by (simp add: top_indices_def Let_def 1 2 stable_argsort_swap [OF assms(1,2,3)] drop_map rev_map)
qed

lemma explain_features_Inr:
  "explain_features g row idxs = Inr es \<Longrightarrow>
     list_all2 (\<lambda>i text. i < length (EXPECTED_FEATURES g) \<and> i < length row
        \<and> generate_text_explanation (EXPECTED_FEATURES g ! i) (row ! i)
             (map_of (normal_ranges g) (EXPECTED_FEATURES g ! i)) = Inr text) idxs es"
proof (induction idxs arbitrary: es)
  case Nil
  then show ?case by simp
next
  case (Cons i rest)
  from Cons.prems obtain expl expls where
    t: "getitem (EXPECTED_FEATURES g) i = Inr (EXPECTED_FEATURES g ! i)" "i < length (EXPECTED_FEATURES g)"
       "getitem row i = Inr (row ! i)" "i < length row"
       "generate_text_explanation (EXPECTED_FEATURES g ! i) (row ! i)
             (map_of (normal_ranges g) (EXPECTED_FEATURES g ! i)) = Inr expl"
       "explain_features g row rest = Inr expls" "es = expl # expls"
    by (auto simp: getitem_def split: sum.splits if_splits)
  with Cons.IH [OF t(6)] show ?case by simp
qed


section \<open>The example installation evaluated\<close>

lemma parts_PS1_std: "feature_parts ''PS1_std'' = [''Ps1'', ''Std'']"
  by code_simp

lemma parts_PS1_min: "feature_parts ''PS1_min'' = [''Ps1'', ''Min'']"
  by code_simp

lemma parts_PS1_max: "feature_parts ''PS1_max'' = [''Ps1'', ''Max'']"
  by code_simp

lemma top_indices_example: "top_indices stable_argsort [1, 5, 3, 2] = [1, 2, 3]"
  by (simp add: top_indices_def stable_argsort_def upt_rec)

lemma example_argsort:
  "np_argsort example_globals = stable_argsort"
  "np_argsort unlisted_globals = stable_argsort"
  "np_argsort strict_globals = stable_argsort"
  by (simp_all add: example_globals_def unlisted_globals_def strict_globals_def)

lemma example_row:
  "dataframe_row example_features (EXPECTED_FEATURES example_globals) = [Num 15, Num 3, Num 5, Num 50]"
  by (simp add: dataframe_row_def example_features_def example_globals_def example_ranges_def)

lemma example_explain:
  "explain_features example_globals [Num 15, Num 3, Num 5, Num 50] [1, 2, 3] = Inr example_explanations"
  by (simp add: example_globals_def example_ranges_def getitem_def
      generate_parts [OF parts_PS1_std] generate_parts [OF parts_PS1_min]
      generate_parts [OF parts_PS1_max] float_gt_def example_explanations_def)

lemma example_analyse:
  "analyse example_globals example_classifier example_attributor example_features =
     Inr (90, 3 / 10, example_explanations)"
  using example_explain
  by (simp add: analyse_def example_row example_classifier_def example_attributor_def example_matrix_def
      getitem_def values_for_class_def example_argsort top_indices_example
      del: explain_features.simps)

lemma format_2f_3_10: "format_2f (Num (3 / 10)) = ''0.30''"
  by (simp add: format_2f_def round_half_even_def str_nat.simps digit_def)

lemma example_assemble:
  "assemble example_globals 90 (3 / 10) example_explanations = ((example_response, 200), example_after)"
  by (simp add: assemble_def example_globals_def example_after_def PREDICTION_MAP_initial_def
      update_response_def example_response_def Let_def format_2f_3_10)

lemma example_loaded:
  "model example_globals = Some example_classifier" "explainer example_globals = Some example_attributor"
  by (simp_all add: example_globals_def)

lemma example_predict:
  "predict example_globals example_request = ((example_response, 200), example_after)"
  by (simp add: predict_loaded [OF example_loaded] example_request_def example_analyse
      example_assemble)

lemma example_maps:
  "PREDICTION_MAP example_globals = PREDICTION_MAP_initial"
  "PREDICTION_MAP example_after = AList.update 90 example_response PREDICTION_MAP_initial"
  by (simp_all add: example_globals_def example_after_def)

section \<open>Properties of the Prediction Service\<close>

text \<open>
  Claim C3.  In every success response the confidence is the two-decimal rendering of the
  entry of the classifier's probability vector at the index of the predicted class in the
  class list (the first index holding that code), whatever the other entries are; the
  response carries that same code as \<open>prediction_code\<close>.
\<close>

theorem confidence_is_probability_of_predicted_class:
  assumes "predict g data = ((body, 200), g')"
  shows "\<exists>m feats c proba ci.
           model g = Some m \<and> (\<exists>d. data = Some d \<and> map_of d ''features'' = Some feats)
         \<and> model_predict m (dataframe_row feats (EXPECTED_FEATURES g)) = Inr c
         \<and> model_predict_proba m (dataframe_row feats (EXPECTED_FEATURES g)) = Inr proba
         \<and> ci < length (model_classes m) \<and> model_classes m ! ci = c
         \<and> (\<forall>j<ci. model_classes m ! j \<noteq> c)
         \<and> ci < length proba
         \<and> map_of body ''prediction_code'' = Some (JInt c)
         \<and> map_of body ''confidence'' = Some (JStr (format_2f (Num (proba ! ci))))"
proof -
  from predict_200 [OF assms] obtain m ex d feats c conf es where
    p: "model g = Some m" "data = Some d" "map_of d ''features'' = Some feats"
       "analyse g m ex feats = Inr (c, conf, es)" "assemble g c conf es = ((body, 200), g')"
    by blast
  from analyse_Inr [OF p(4)] obtain proba ci where
    a: "model_predict m (dataframe_row feats (EXPECTED_FEATURES g)) = Inr c"
       "model_predict_proba m (dataframe_row feats (EXPECTED_FEATURES g)) = Inr proba"
       "where_first (model_classes m) c = Inr ci" "getitem proba ci = Inr conf"
    by blast
  from assemble_body [OF p(5)] obtain r where r: "body = update_response r conf c es" by blast
  from where_first_Inr [OF a(3)] getitem_Inr [OF a(4)] p(1,2,3) a(1,2) r show ?thesis
    by (auto simp: map_of_update_response)
qed

text \<open>
  In the example the predicted class 90 has probability 0.3 while class 80 has 0.6: the
  reported confidence is 0.30, not the maximum.
\<close>

theorem confidence_is_probability_of_predicted_class_witness:
  "predict example_globals example_request = ((example_response, 200), example_after)
   \<and> model_predict_proba example_classifier [Num 15, Num 3, Num 5, Num 50] = Inr [1 / 10, 6 / 10, 3 / 10, 0]
   \<and> map_of example_response ''prediction_code'' = Some (JInt 90)
   \<and> map_of example_response ''confidence'' = Some (JStr ''0.30'')
   \<and> (\<exists>m feats c proba ci.
           model example_globals = Some m \<and> (\<exists>d. example_request = Some d \<and> map_of d ''features'' = Some feats)
         \<and> model_predict m (dataframe_row feats (EXPECTED_FEATURES example_globals)) = Inr c
         \<and> model_predict_proba m (dataframe_row feats (EXPECTED_FEATURES example_globals)) = Inr proba
         \<and> ci < length (model_classes m) \<and> model_classes m ! ci = c
         \<and> (\<forall>j<ci. model_classes m ! j \<noteq> c)
         \<and> ci < length proba
         \<and> map_of example_response ''prediction_code'' = Some (JInt c)
         \<and> map_of example_response ''confidence'' = Some (JStr (format_2f (Num (proba ! ci)))))"
  using confidence_is_probability_of_predicted_class [OF example_predict] example_predict
  by (simp add: example_classifier_def example_response_def)

text \<open>
  Claim C9.  When the stages of a request succeed with a predicted code that has no entry
  in the descriptor map, the service answers with status 200 and a response that holds
  exactly the confidence, the prediction code and the explanations (no label, severity or
  remedy), and the shared objects stay as they are.
\<close>

theorem unknown_code_yields_bare_response:
  assumes "model g = Some m" and "explainer g = Some ex"
    and "map_of d ''features'' = Some feats"
    and "analyse g m ex feats = Inr (c, conf, es)"
    and "map_of (PREDICTION_MAP g) c = None"
  shows "predict g (Some d) =
           (([(''confidence'', JStr (format_2f (Num conf))), (''prediction_code'', JInt c),
              (''explanations'', JList es)], 200), g)"
  using assms(3,4,5)
  by (simp add: predict_loaded [OF assms(1,2)] assemble_def update_response_def)

text \<open>
  Claim C5 at a concrete request.  After a request whose predicted code is 90, the entry of
  the descriptor map for 90 holds the confidence, the prediction code and the explanations
  of that request besides its label, severity and remedy: the handler updated the map's own
  dictionary.
\<close>

theorem request_handling_frame_counterexample:
  "PREDICTION_MAP (snd (predict example_globals example_request)) \<noteq> PREDICTION_MAP example_globals
   \<and> map_of (PREDICTION_MAP example_globals) 90 =
       Some [(''label'', JStr ''Small Lag''), (''severity'', JStr ''medium''),
             (''remedy'', JList [''Inspect valve for contamination.'', ''Check pilot pressure.''])]
   \<and> map_of (PREDICTION_MAP (snd (predict example_globals example_request))) 90 =
       Some [(''label'', JStr ''Small Lag''), (''severity'', JStr ''medium''),
             (''remedy'', JList [''Inspect valve for contamination.'', ''Check pilot pressure.'']),
             (''confidence'', JStr ''0.30''), (''prediction_code'', JInt 90),
             (''explanations'', JList example_explanations)]"
  by (simp add: example_predict example_maps PREDICTION_MAP_initial_def example_response_def)

lemma assemble_frame:
  "assemble g c conf es = (r, g') \<Longrightarrow>
     model g' = model g \<and> explainer g' = explainer g \<and> normal_ranges g' = normal_ranges g
     \<and> EXPECTED_FEATURES g' = EXPECTED_FEATURES g \<and> np_argsort g' = np_argsort g"
  by (auto simp: assemble_def Let_def split: option.splits)

lemma predict_frame:
  assumes "predict g data = (r, g')"
  shows "model g' = model g \<and> explainer g' = explainer g \<and> normal_ranges g' = normal_ranges g
     \<and> EXPECTED_FEATURES g' = EXPECTED_FEATURES g \<and> np_argsort g' = np_argsort g"
proof (cases "model g = None \<or> explainer g = None")
  case True
  with assms show ?thesis by (simp add: predict_not_loaded)
next
  case False
  then obtain m ex where l: "model g = Some m" "explainer g = Some ex" by auto
  from assms show ?thesis
    unfolding predict_loaded [OF l]
    by (auto split: option.splits sum.splits dest: assemble_frame)
qed


lemma top_indices_zero: "top_indices stable_argsort [0, 0, 0, 0] = [3, 2, 1]"
  by (simp add: top_indices_def stable_argsort_def upt_rec)

lemma unlisted_row:
  "dataframe_row example_features (EXPECTED_FEATURES unlisted_globals) = [Num 15, Num 3, Num 5, Num 50]"
  by (simp add: dataframe_row_def example_features_def unlisted_globals_def example_globals_def
      example_ranges_def)

lemma unlisted_explain:
  "explain_features unlisted_globals [Num 15, Num 3, Num 5, Num 50] [3, 2, 1] = Inr unlisted_explanations"
  by (simp add: unlisted_globals_def example_globals_def example_ranges_def getitem_def
      generate_parts [OF parts_PS1_std] generate_parts [OF parts_PS1_min]
      generate_parts [OF parts_PS1_max] float_gt_def unlisted_explanations_def)

lemma unlisted_analyse:
  "analyse unlisted_globals unlisted_classifier example_attributor example_features =
     Inr (95, 1, unlisted_explanations)"
  using unlisted_explain
  by (simp add: analyse_def unlisted_row unlisted_classifier_def example_attributor_def example_matrix_def
      getitem_def values_for_class_def example_argsort top_indices_zero
      del: explain_features.simps)

lemma unlisted_loaded:
  "model unlisted_globals = Some unlisted_classifier"
  "explainer unlisted_globals = Some example_attributor"
  "map_of (PREDICTION_MAP unlisted_globals) 95 = None"
  by (simp_all add: unlisted_globals_def example_globals_def PREDICTION_MAP_initial_def)

lemma features_key: "map_of [(''features'', feats)] ''features'' = Some feats"
  by simp

theorem unknown_code_yields_bare_response_witness:
  "model unlisted_globals = Some unlisted_classifier
   \<and> explainer unlisted_globals = Some example_attributor
   \<and> map_of [(''features'', example_features)] ''features'' = Some example_features
   \<and> analyse unlisted_globals unlisted_classifier example_attributor example_features =
        Inr (95, 1, unlisted_explanations)
   \<and> map_of (PREDICTION_MAP unlisted_globals) 95 = None
   \<and> predict unlisted_globals (Some [(''features'', example_features)]) =
        (([(''confidence'', JStr (format_2f (Num 1))), (''prediction_code'', JInt 95),
           (''explanations'', JList unlisted_explanations)], 200), unlisted_globals)"
  using unknown_code_yields_bare_response [OF unlisted_loaded(1,2) features_key unlisted_analyse
      unlisted_loaded(3)] unlisted_loaded unlisted_analyse
  by simp

text \<open>Requests that omit a feature.\<close>

lemma partial_row:
  "dataframe_row partial_features (EXPECTED_FEATURES example_globals) = [Num 15, NaN, Num 5, Num 50]"
  by (simp add: dataframe_row_def partial_features_def example_globals_def example_ranges_def)

lemma partial_explain:
  "explain_features example_globals [Num 15, NaN, Num 5, Num 50] [1, 2, 3] = Inr partial_explanations"
  by (simp add: example_globals_def example_ranges_def getitem_def
      generate_parts [OF parts_PS1_std] generate_parts [OF parts_PS1_min]
      generate_parts [OF parts_PS1_max] float_gt_def partial_explanations_def)

lemma partial_analyse:
  "analyse example_globals example_classifier example_attributor partial_features =
     Inr (90, 3 / 10, partial_explanations)"
  using partial_explain
  by (simp add: analyse_def partial_row example_classifier_def example_attributor_def example_matrix_def
      getitem_def values_for_class_def example_argsort top_indices_example
      del: explain_features.simps)

lemma strict_loaded:
  "model strict_globals = Some strict_classifier" "explainer strict_globals = Some example_attributor"
  "EXPECTED_FEATURES strict_globals = EXPECTED_FEATURES example_globals"
  by (simp_all add: strict_globals_def example_globals_def)

lemma strict_analyse:
  "analyse strict_globals strict_classifier example_attributor partial_features =
     Inl (Raised ''Input contains NaN'')"
  by (simp add: analyse_def strict_loaded partial_row strict_classifier_def)

lemma partial_predict_status:
  "snd (fst (predict example_globals (Some [(''features'', partial_features)]))) = 200"
  by (simp add: predict_loaded [OF example_loaded] partial_analyse assemble_status)

lemma strict_predict:
  "predict strict_globals (Some [(''features'', partial_features)]) =
     (([(''error'', JStr ''Input contains NaN'')], 500), strict_globals)"
  by (simp add: predict_loaded [OF strict_loaded(1,2)] strict_analyse)

text \<open>
  Claim C7 at a concrete request.  The request omits \<open>PS1_std\<close>, a name of the expected
  features.  With a classifier that accepts a missing value the service answers with a
  prediction (status 200); with one that raises on it the answer is the generic error of
  the \<^verbatim>\<open>except\<close> clause with status 500.  Neither is the client error 400.
\<close>

theorem missing_feature_counterexample:
  "''PS1_std'' \<in> set (EXPECTED_FEATURES example_globals)
   \<and> map_of partial_features ''PS1_std'' = None
   \<and> snd (fst (predict example_globals (Some [(''features'', partial_features)]))) = 200
   \<and> predict strict_globals (Some [(''features'', partial_features)]) =
        (([(''error'', JStr ''Input contains NaN'')], 500), strict_globals)"
  by (simp add: partial_predict_status strict_predict)
     (simp add: example_globals_def example_ranges_def partial_features_def)

lemma dataframe_row_nth:
  "i < length cols \<Longrightarrow>
     dataframe_row feats cols ! i = (case map_of feats (cols ! i) of None \<Rightarrow> NaN | Some v \<Rightarrow> Num v)"
  by (simp add: dataframe_row_def)

lemma predict_400_iff:
  "(snd (fst (predict g data)) = 400) =
     (model g \<noteq> None \<and> explainer g \<noteq> None
      \<and> (data = None \<or> (\<exists>d. data = Some d \<and> map_of d ''features'' = None)))"
proof (cases "model g = None \<or> explainer g = None")
  case True
  then show ?thesis by (auto simp: predict_not_loaded)
next
  case False
  then obtain m ex where l: "model g = Some m" "explainer g = Some ex" by auto
  show ?thesis
    unfolding predict_loaded [OF l] using l
    by (auto simp: assemble_status split: option.splits sum.splits)
qed

text \<open>
  Claim C7, as the code has it.  The only client error is the one for a missing body or a
  missing \<open>features\<close> key.  A request with a \<open>features\<close> mapping is never checked against
  the expected names: its row has the expected columns in their order, with \<^verbatim>\<open>nan\<close> in
  every column the mapping lacks, and it is answered by the prediction built from that row
  or, when a stage raises, by the generic error with status 500.
\<close>

theorem missing_feature_is_not_rejected:
  "((snd (fst (predict g data)) = 400) =
      (model g \<noteq> None \<and> explainer g \<noteq> None
       \<and> (data = None \<or> (\<exists>d. data = Some d \<and> map_of d ''features'' = None))))
   \<and> (model g = Some m \<and> explainer g = Some ex \<and> map_of d ''features'' = Some feats \<longrightarrow>
        predict g (Some d) =
          (case analyse g m ex feats of
             Inl e \<Rightarrow> (([(''error'', JStr (str_exn e))], 500), g)
           | Inr (c, conf, es) \<Rightarrow> assemble g c conf es)
        \<and> (snd (fst (predict g (Some d))) = 200 \<or> snd (fst (predict g (Some d))) = 500))
   \<and> (\<forall>i<length (EXPECTED_FEATURES g).
         dataframe_row feats (EXPECTED_FEATURES g) ! i =
           (case map_of feats (EXPECTED_FEATURES g ! i) of None \<Rightarrow> NaN | Some v \<Rightarrow> Num v))"
proof (intro conjI impI allI)
  show "(snd (fst (predict g data)) = 400) =
      (model g \<noteq> None \<and> explainer g \<noteq> None
       \<and> (data = None \<or> (\<exists>d. data = Some d \<and> map_of d ''features'' = None)))"
    by (rule predict_400_iff)
next
  assume a: "model g = Some m \<and> explainer g = Some ex \<and> map_of d ''features'' = Some feats"
  then show "predict g (Some d) =
          (case analyse g m ex feats of
             Inl e \<Rightarrow> (([(''error'', JStr (str_exn e))], 500), g)
           | Inr (c, conf, es) \<Rightarrow> assemble g c conf es)"
    by (simp add: predict_loaded [of g m ex])
  from a show "snd (fst (predict g (Some d))) = 200 \<or> snd (fst (predict g (Some d))) = 500"
    by (auto simp: predict_loaded [of g m ex] assemble_status split: sum.splits)
next
  fix i assume "i < length (EXPECTED_FEATURES g)"
  then show "dataframe_row feats (EXPECTED_FEATURES g) ! i =
           (case map_of feats (EXPECTED_FEATURES g ! i) of None \<Rightarrow> NaN | Some v \<Rightarrow> Num v)"
    by (rule dataframe_row_nth)
qed

lemma partial_missing:
  "(1::nat) < length (EXPECTED_FEATURES example_globals)"
  "map_of partial_features (EXPECTED_FEATURES example_globals ! 1) = None"
  by (simp_all add: example_globals_def example_ranges_def partial_features_def)

theorem missing_feature_is_not_rejected_witness:
  "snd (fst (predict example_globals (Some [(''features'', partial_features)]))) \<noteq> 400
   \<and> (model example_globals = Some example_classifier
      \<and> explainer example_globals = Some example_attributor
      \<and> map_of [(''features'', partial_features)] ''features'' = Some partial_features)
   \<and> predict example_globals (Some [(''features'', partial_features)]) =
        assemble example_globals 90 (3 / 10) partial_explanations
   \<and> (1::nat) < length (EXPECTED_FEATURES example_globals)
   \<and> map_of partial_features (EXPECTED_FEATURES example_globals ! 1) = None
   \<and> dataframe_row partial_features (EXPECTED_FEATURES example_globals) ! 1 = NaN"
proof -
  let ?d = "[(''features'', partial_features)]"
  note t = missing_feature_is_not_rejected [of example_globals "Some ?d" example_classifier
      example_attributor ?d partial_features]
  have h: "model example_globals = Some example_classifier
      \<and> explainer example_globals = Some example_attributor
      \<and> map_of ?d ''features'' = Some partial_features"
    by (simp add: example_loaded)
  have n: "snd (fst (predict example_globals (Some ?d))) \<noteq> 400"
    unfolding t [THEN conjunct1] by simp
  from t [THEN conjunct2, THEN conjunct1] h
  have "predict example_globals (Some ?d) =
          (case analyse example_globals example_classifier example_attributor partial_features of
             Inl e \<Rightarrow> (([(''error'', JStr (str_exn e))], 500), example_globals)
           | Inr (c, conf, es) \<Rightarrow> assemble example_globals c conf es)"
    by blast
  then have p: "predict example_globals (Some ?d) =
      assemble example_globals 90 (3 / 10) partial_explanations"
    by (simp add: partial_analyse)
  from t [THEN conjunct2, THEN conjunct2] partial_missing
  have r: "dataframe_row partial_features (EXPECTED_FEATURES example_globals) ! 1 = NaN"
    by simp
  from n h p partial_missing r show ?thesis by blast
qed


text \<open>
  Claim C8 at two concrete start-ups.  When loading the model file raises an exception
  other than \<^verbatim>\<open>FileNotFoundError\<close>, or when the construction of the attributor raises,
  the exception leaves the module: there is no running service that could reject requests.
\<close>

theorem load_failure_counterexample:
  "startup (Inl (Raised ''invalid load key'')) (\<lambda>m. Inr example_attributor)
       (Inr [profile_of 100]) even_sensors stable_argsort = Inl (Raised ''invalid load key'')
   \<and> startup (Inr example_classifier) (\<lambda>m. Inl (Raised ''Model type not yet supported by TreeExplainer''))
       (Inr [profile_of 100]) even_sensors stable_argsort = Inl (Raised ''Model type not yet supported by TreeExplainer'')"
  by (simp add: startup_def load_model_def)

text \<open>
  Claim C8, as the code has it.  When the model file is not found at start-up the module
  is imported with both the model and the explainer absent, and in every state in which
  one of them is absent every request, whatever its body, is answered by the error
  \<open>Model or Explainer not loaded\<close> with status 500 (a success has status 200), the shared
  objects unchanged.
\<close>

theorem missing_model_rejects_every_request:
  "(joblib_load = Inl FileNotFoundError \<longrightarrow>
      (\<exists>g. startup joblib_load tree_explainer read_profile read_sensor argsort = Inr g
            \<and> model g = None \<and> explainer g = None))
   \<and> (model g = None \<or> explainer g = None \<longrightarrow>
        predict g data = (([(''error'', JStr ''Model or Explainer not loaded'')], 500), g))"
  by (simp add: startup_def load_model_def Let_def predict_not_loaded)

theorem missing_model_rejects_every_request_witness:
  "(\<exists>g. startup (Inl FileNotFoundError) (\<lambda>m. Inr example_attributor) (Inr [profile_of 100])
            even_sensors stable_argsort = Inr g \<and> model g = None \<and> explainer g = None)
   \<and> model (example_globals\<lparr>model := None\<rparr>) = None
   \<and> predict (example_globals\<lparr>model := None\<rparr>) example_request =
        (([(''error'', JStr ''Model or Explainer not loaded'')], 500), example_globals\<lparr>model := None\<rparr>)"
  using missing_model_rejects_every_request [of "Inl FileNotFoundError" "\<lambda>m. Inr example_attributor"
      "Inr [profile_of 100]" even_sensors stable_argsort "example_globals\<lparr>model := None\<rparr>"
      example_request]
  by simp

text \<open>
  Claim C1, as the code has it.  In a success response, when the attributor returned one
  row of scores per expected feature, the \<open>k\<close>-th explanation is the statement for the
  feature at the \<open>k\<close>-th index that \<^verbatim>\<open>np.argsort(...)[-3:][::-1]\<close> selects.  When
  the sorting routine returned what numpy documents for the absolute scores of the
  predicted class, the explanation list has \<open>min 3 n\<close> entries for the \<open>n\<close> expected
  features (the columns of the frame, however many features the request supplies); the
  selected indices are distinct, in descending order of the absolute score, and no feature
  left out has a larger absolute score than a selected one.  When moreover the absolute
  scores are pairwise different, exchanging the scores of two features exchanges the two
  features in the selection.  Nothing is said of the order among equal absolute scores.
\<close>

theorem explanations_are_top_three_by_magnitude:
  assumes "predict g (Some d) = ((body, 200), g')"
    and "map_of d ''features'' = Some feats"
    and "explainer g = Some ex"
    and "ex (dataframe_row feats (EXPECTED_FEATURES g)) = Inr vals"
    and "length vals = length (EXPECTED_FEATURES g)"
  shows "\<exists>m c ci es scores top.
           model g = Some m
         \<and> model_predict m (dataframe_row feats (EXPECTED_FEATURES g)) = Inr c
         \<and> where_first (model_classes m) c = Inr ci
         \<and> scores = map (\<lambda>r. r ! ci) vals
         \<and> top = top_indices (np_argsort g) (map abs scores)
         \<and> map_of body ''explanations'' = Some (JList es)
         \<and> length top = length es
         \<and> (\<forall>k<length es. top ! k < length (EXPECTED_FEATURES g)
               \<and> generate_text_explanation (EXPECTED_FEATURES g ! (top ! k))
                    (dataframe_row feats (EXPECTED_FEATURES g) ! (top ! k))
                    (map_of (normal_ranges g) (EXPECTED_FEATURES g ! (top ! k))) = Inr (es ! k))
         \<and> (is_argsort (map abs scores) (np_argsort g (map abs scores)) \<longrightarrow>
               length es = min 3 (length (EXPECTED_FEATURES g))
             \<and> distinct top
             \<and> sorted_wrt (\<lambda>i j. \<bar>scores ! j\<bar> \<le> \<bar>scores ! i\<bar>) top
             \<and> (\<forall>i \<in> set top. \<forall>j<length scores. j \<notin> set top \<longrightarrow> \<bar>scores ! j\<bar> \<le> \<bar>scores ! i\<bar>)
             \<and> (\<forall>i<length scores. \<forall>j<length scores.
                   distinct (map abs scores)
                   \<and> is_argsort (map abs (scores[i := scores ! j, j := scores ! i]))
                        (np_argsort g (map abs (scores[i := scores ! j, j := scores ! i]))) \<longrightarrow>
                   top_indices (np_argsort g) (map abs (scores[i := scores ! j, j := scores ! i])) =
                     map (\<lambda>k. if k = i then j else if k = j then i else k) top))"
proof -
  let ?row = "dataframe_row feats (EXPECTED_FEATURES g)"
  from predict_200 [OF assms(1)] assms(2,3) obtain m c conf es where
    p: "model g = Some m" "analyse g m ex feats = Inr (c, conf, es)"
       "assemble g c conf es = ((body, 200), g')"
    by auto
  from analyse_Inr [OF p(2)] assms(4) obtain ci scores where
    a: "model_predict m ?row = Inr c" "where_first (model_classes m) c = Inr ci"
       "values_for_class vals ci = Inr scores"
       "explain_features g ?row (top_indices (np_argsort g) (map abs scores)) = Inr es"
    by auto
  define top where "top = top_indices (np_argsort g) (map abs scores)"
  have sc: "scores = map (\<lambda>r. r ! ci) vals" by (rule values_for_class_Inr [OF a(3)])
  then have len: "length scores = length (EXPECTED_FEATURES g)" using assms(5) by simp
  from assemble_body [OF p(3)] have b: "map_of body ''explanations'' = Some (JList es)"
    by (auto simp: map_of_update_response)
  have l2: "list_all2 (\<lambda>i expl. i < length (EXPECTED_FEATURES g) \<and> i < length ?row
        \<and> generate_text_explanation (EXPECTED_FEATURES g ! i) (?row ! i)
             (map_of (normal_ranges g) (EXPECTED_FEATURES g ! i)) = Inr expl) top es"
    unfolding top_def by (rule explain_features_Inr [OF a(4)])
  have lt: "length top = length es" using l2 by (rule list_all2_lengthD)
  have nth: "\<forall>k<length es. top ! k < length (EXPECTED_FEATURES g)
               \<and> generate_text_explanation (EXPECTED_FEATURES g ! (top ! k)) (?row ! (top ! k))
                    (map_of (normal_ranges g) (EXPECTED_FEATURES g ! (top ! k))) = Inr (es ! k)"
    using l2 lt by (simp add: list_all2_conv_all_nth)
  have ranked: "length es = min 3 (length (EXPECTED_FEATURES g))
             \<and> distinct top
             \<and> sorted_wrt (\<lambda>i j. \<bar>scores ! j\<bar> \<le> \<bar>scores ! i\<bar>) top
             \<and> (\<forall>i \<in> set top. \<forall>j<length scores. j \<notin> set top \<longrightarrow> \<bar>scores ! j\<bar> \<le> \<bar>scores ! i\<bar>)
             \<and> (\<forall>i<length scores. \<forall>j<length scores.
                   distinct (map abs scores)
                   \<and> is_argsort (map abs (scores[i := scores ! j, j := scores ! i]))
                        (np_argsort g (map abs (scores[i := scores ! j, j := scores ! i]))) \<longrightarrow>
                   top_indices (np_argsort g) (map abs (scores[i := scores ! j, j := scores ! i])) =
                     map (\<lambda>k. if k = i then j else if k = j then i else k) top)"
    if srt: "is_argsort (map abs scores) (np_argsort g (map abs scores))"
  proof -
    have ltop: "length es = min 3 (length (EXPECTED_FEATURES g))"
      using lt length_top_indices [where f = "np_argsort g" and a = "map abs scores", OF srt] by (simp add: top_def len)
    have d: "distinct top" unfolding top_def by (rule distinct_top_indices [where f = "np_argsort g" and a = "map abs scores", OF srt])
    have mem: "i < length scores" if "i \<in> set top" for i
      using that set_top_indices [where f = "np_argsort g" and a = "map abs scores", OF srt] by (auto simp: top_def)
    have "sorted_wrt (\<lambda>i j. map abs scores ! j \<le> map abs scores ! i) top"
      unfolding top_def by (rule sorted_top_indices [where f = "np_argsort g" and a = "map abs scores", OF srt])
    then have s: "sorted_wrt (\<lambda>i j. \<bar>scores ! j\<bar> \<le> \<bar>scores ! i\<bar>) top"
      by (rule sorted_wrt_mono_rel [rotated]) (simp add: mem)
    have dom: "\<forall>i \<in> set top. \<forall>j<length scores. j \<notin> set top \<longrightarrow> \<bar>scores ! j\<bar> \<le> \<bar>scores ! i\<bar>"
    proof (intro ballI allI impI)
      fix i j assume ij: "i \<in> set top" "j < length scores" "j \<notin> set top"
      then have "map abs scores ! j \<le> map abs scores ! i"
        unfolding top_def by (intro top_indices_dominate [where f = "np_argsort g" and a = "map abs scores", OF srt]) simp_all
      then show "\<bar>scores ! j\<bar> \<le> \<bar>scores ! i\<bar>" using ij(2) mem [OF ij(1)] by simp
    qed
    have sw: "\<forall>i<length scores. \<forall>j<length scores.
                   distinct (map abs scores)
                   \<and> is_argsort (map abs (scores[i := scores ! j, j := scores ! i]))
                        (np_argsort g (map abs (scores[i := scores ! j, j := scores ! i]))) \<longrightarrow>
                   top_indices (np_argsort g) (map abs (scores[i := scores ! j, j := scores ! i])) =
                     map (\<lambda>k. if k = i then j else if k = j then i else k) top"
    proof (intro allI impI)
      fix i j
      assume ij: "i < length scores" "j < length scores"
        and dd: "distinct (map abs scores)
                   \<and> is_argsort (map abs (scores[i := scores ! j, j := scores ! i]))
                        (np_argsort g (map abs (scores[i := scores ! j, j := scores ! i])))"
      have eq: "map abs (scores[i := scores ! j, j := scores ! i]) =
            (map abs scores)[i := map abs scores ! j, j := map abs scores ! i]"
        using ij by (simp add: map_update)
      have "top_indices (np_argsort g)
              ((map abs scores)[i := map abs scores ! j, j := map abs scores ! i]) =
            map (\<lambda>k. if k = i then j else if k = j then i else k)
              (top_indices (np_argsort g) (map abs scores))"
        by (rule top_indices_swap [where f = "np_argsort g"]) (use ij dd srt eq in simp_all)
      then show "top_indices (np_argsort g) (map abs (scores[i := scores ! j, j := scores ! i])) =
                     map (\<lambda>k. if k = i then j else if k = j then i else k) top"
        by (simp add: eq top_def)
    qed
    from ltop d s dom sw show ?thesis by blast
  qed
  from p(1) a(1,2) sc b lt nth ranked top_def show ?thesis
    by (intro exI [of _ m] exI [of _ c] exI [of _ ci] exI [of _ es] exI [of _ scores]
        exI [of _ top]) simp
qed

lemma example_attribution:
  "example_attributor (dataframe_row example_features (EXPECTED_FEATURES example_globals)) = Inr example_matrix"
  "length example_matrix = length (EXPECTED_FEATURES example_globals)"
  by (simp_all add: example_attributor_def example_matrix_def example_globals_def example_ranges_def)

lemma example_predict_Some:
  "predict example_globals (Some [(''features'', example_features)]) = ((example_response, 200), example_after)"
  using example_predict by (simp add: example_request_def)

lemma example_ranking:
  "is_argsort [1, 5, 3, 2] (np_argsort example_globals [1, 5, 3, 2])"
  "top_indices (np_argsort example_globals) [1, 5, 3, 2] = [1, 2, 3]"
  by (simp_all add: example_argsort is_argsort_stable top_indices_example)

theorem explanations_are_top_three_by_magnitude_witness:
  "predict example_globals (Some [(''features'', example_features)]) = ((example_response, 200), example_after)
   \<and> map_of [(''features'', example_features)] ''features'' = Some example_features
   \<and> explainer example_globals = Some example_attributor
   \<and> example_attributor (dataframe_row example_features (EXPECTED_FEATURES example_globals)) = Inr example_matrix
   \<and> length example_matrix = length (EXPECTED_FEATURES example_globals)
   \<and> is_argsort [1, 5, 3, 2] (np_argsort example_globals [1, 5, 3, 2])
   \<and> top_indices (np_argsort example_globals) [1, 5, 3, 2] = [1, 2, 3]
   \<and> (\<exists>m c ci es scores top.
           model example_globals = Some m
         \<and> model_predict m (dataframe_row example_features (EXPECTED_FEATURES example_globals)) = Inr c
         \<and> where_first (model_classes m) c = Inr ci
         \<and> scores = map (\<lambda>r. r ! ci) example_matrix
         \<and> top = top_indices (np_argsort example_globals) (map abs scores)
         \<and> map_of example_response ''explanations'' = Some (JList es)
         \<and> length top = length es
         \<and> (\<forall>k<length es. top ! k < length (EXPECTED_FEATURES example_globals)
               \<and> generate_text_explanation (EXPECTED_FEATURES example_globals ! (top ! k))
                    (dataframe_row example_features (EXPECTED_FEATURES example_globals) ! (top ! k))
                    (map_of (normal_ranges example_globals) (EXPECTED_FEATURES example_globals ! (top ! k))) = Inr (es ! k))
         \<and> (is_argsort (map abs scores) (np_argsort example_globals (map abs scores)) \<longrightarrow>
               length es = min 3 (length (EXPECTED_FEATURES example_globals))
             \<and> distinct top
             \<and> sorted_wrt (\<lambda>i j. \<bar>scores ! j\<bar> \<le> \<bar>scores ! i\<bar>) top
             \<and> (\<forall>i \<in> set top. \<forall>j<length scores. j \<notin> set top \<longrightarrow> \<bar>scores ! j\<bar> \<le> \<bar>scores ! i\<bar>)
             \<and> (\<forall>i<length scores. \<forall>j<length scores.
                   distinct (map abs scores)
                   \<and> is_argsort (map abs (scores[i := scores ! j, j := scores ! i]))
                        (np_argsort example_globals (map abs (scores[i := scores ! j, j := scores ! i]))) \<longrightarrow>
                   top_indices (np_argsort example_globals) (map abs (scores[i := scores ! j, j := scores ! i])) =
                     map (\<lambda>k. if k = i then j else if k = j then i else k) top)))"
  by (intro conjI)
    (rule example_predict_Some, rule features_key, rule example_loaded(2),
     rule example_attribution(1), rule example_attribution(2),
     rule example_ranking(1), rule example_ranking(2),
     rule explanations_are_top_three_by_magnitude [OF example_predict_Some features_key
       example_loaded(2) example_attribution])

text \<open>A request without any feature.\<close>

lemma empty_row:
  "dataframe_row [] (EXPECTED_FEATURES example_globals) = [NaN, NaN, NaN, NaN]"
  by (simp add: dataframe_row_def example_globals_def example_ranges_def)

lemma empty_explain:
  "explain_features example_globals [NaN, NaN, NaN, NaN] [1, 2, 3] = Inr empty_request_explanations"
  by (simp add: example_globals_def example_ranges_def getitem_def
      generate_parts [OF parts_PS1_std] generate_parts [OF parts_PS1_min]
      generate_parts [OF parts_PS1_max] float_gt_def empty_request_explanations_def)

lemma empty_analyse:
  "analyse example_globals example_classifier example_attributor [] =
     Inr (90, 3 / 10, empty_request_explanations)"
  using empty_explain
  by (simp add: analyse_def empty_row example_classifier_def example_attributor_def
      example_matrix_def getitem_def values_for_class_def example_argsort top_indices_example
      del: explain_features.simps)

lemma assemble_explanations:
  "map_of (fst (fst (assemble g c conf es))) ''explanations'' = Some (JList es)"
  by (simp add: assemble_def Let_def map_of_update_response split: option.splits)

lemma empty_predict:
  "predict example_globals (Some [(''features'', [])]) =
     assemble example_globals 90 (3 / 10) empty_request_explanations"
  by (simp add: predict_loaded [OF example_loaded] empty_analyse)

text \<open>
  Claim C1 at a concrete request.  The request supplies no feature at all, so the claim's
  \<open>min 3\<close> of the number of input features is 0; the installation expects four features
  and the service answers with status 200 and three explanations, one for each of the
  three features of largest attribution magnitude, each rendering the missing value.
\<close>

theorem explanation_count_counterexample:
  "length ([] :: features) = 0
   \<and> length (EXPECTED_FEATURES example_globals) = 4
   \<and> snd (fst (predict example_globals (Some [(''features'', [])]))) = 200
   \<and> map_of (fst (fst (predict example_globals (Some [(''features'', [])])))) ''explanations'' =
        Some (JList empty_request_explanations)
   \<and> length empty_request_explanations = 3
   \<and> min 3 (length ([] :: features)) = 0"
  by (simp add: empty_predict assemble_status assemble_explanations)
     (simp add: example_globals_def example_ranges_def empty_request_explanations_def)


section \<open>Properties of the Feature Extractor and the Range Calculator\<close>

lemma all_features_length:
  "all_features read_sensor sensors = Inr fs \<Longrightarrow> length fs = length sensors"
  by (induction sensors arbitrary: fs) (auto split: sum.splits)

lemma fold_max_Max:
  fixes ns :: "nat list"
  assumes "ns \<noteq> []"
  shows "fold max ns 0 = Max (set ns)"
proof -
  have "fold max ns 0 = Max (set (0 # ns))" by (rule Max.set_eq_fold [symmetric])
  also have "\<dots> = max 0 (Max (set ns))" using assms by simp
  finally show ?thesis by simp
qed

lemma concat_axis1_Inr:
  assumes "fs \<noteq> []"
  shows "\<exists>df. concat_axis1 fs = Inr df
           \<and> columns df = concat (map columns fs)
           \<and> length (rows df) = Max (set (map (\<lambda>f. length (rows f)) fs))
           \<and> (\<forall>i<length (rows df). rows df ! i =
                 concat (map (\<lambda>f. if i < length (rows f) then rows f ! i
                                   else replicate (length (columns f)) NaN) fs))"
  using assms by (simp add: concat_axis1_def fold_max_Max cong: if_cong)

text \<open>
  Claim C6, as the code has it.  Whenever every sensor file is read, the Feature Extractor
  returns a table, whatever the cycle counts of the sensor tables are: the table has as
  many rows as the longest sensor table, and in a row that a shorter table lacks the cells
  of that table are \<^verbatim>\<open>nan\<close>.  No row mismatch is detected.
\<close>

theorem feature_tables_are_padded_not_rejected:
  assumes "all_features read_sensor sensors_to_process = Inr fs"
  shows "\<exists>df. features_df read_sensor = Inr df
           \<and> columns df = concat (map columns fs)
           \<and> length (rows df) = Max (set (map (\<lambda>f. length (rows f)) fs))
           \<and> (\<forall>i<length (rows df). rows df ! i =
                 concat (map (\<lambda>f. if i < length (rows f) then rows f ! i
                                   else replicate (length (columns f)) NaN) fs))"
proof -
  have "length fs = length sensors_to_process" by (rule all_features_length [OF assms])
  then have "fs \<noteq> []" by (auto simp: sensors_to_process_def)
  from concat_axis1_Inr [OF this] assms show ?thesis by (simp add: features_df_def)
qed

lemma uneven_all_features:
  "all_features uneven_sensors sensors_to_process = Inr uneven_frames"
  by (simp add: sensors_to_process_def uneven_sensors_def uneven_frames_def)

theorem feature_tables_are_padded_not_rejected_witness:
  "all_features uneven_sensors sensors_to_process = Inr uneven_frames
   \<and> (\<exists>df. features_df uneven_sensors = Inr df
           \<and> columns df = concat (map columns uneven_frames)
           \<and> length (rows df) = Max (set (map (\<lambda>f. length (rows f)) uneven_frames))
           \<and> (\<forall>i<length (rows df). rows df ! i =
                 concat (map (\<lambda>f. if i < length (rows f) then rows f ! i
                                   else replicate (length (columns f)) NaN) uneven_frames)))"
  by (intro conjI)
    (rule uneven_all_features, rule feature_tables_are_padded_not_rejected [OF uneven_all_features])

lemma row_stats_123:
  "row_mean [1, 2, 3] = Num 2" "row_std [1, 2, 3] = Num 1"
  "row_min [1, 2, 3] = Num 1" "row_max [1, 2, 3] = Num 3"
  by (simp_all add: row_mean_def row_std_def row_min_def row_max_def power2_eq_square)

lemma row_stats_456:
  "row_mean [4, 5, 6] = Num 5" "row_std [4, 5, 6] = Num 1"
  "row_min [4, 5, 6] = Num 4" "row_max [4, 5, 6] = Num 6"
  by (simp_all add: row_mean_def row_std_def row_min_def row_max_def power2_eq_square)

lemma uneven_features_df:
  "features_df uneven_sensors =
     Inr \<lparr>columns = [''PS1_mean'', ''PS1_std'', ''PS1_min'', ''PS1_max'',
                     ''PS2_mean'', ''PS2_std'', ''PS2_min'', ''PS2_max'',
                     ''PS3_mean'', ''PS3_std'', ''PS3_min'', ''PS3_max'',
                     ''TS1_mean'', ''TS1_std'', ''TS1_min'', ''TS1_max'',
                     ''TS2_mean'', ''TS2_std'', ''TS2_min'', ''TS2_max'',
                     ''VS1_mean'', ''VS1_std'', ''VS1_min'', ''VS1_max''],
          rows = [[Num 2, Num 1, Num 1, Num 3, Num 2, Num 1, Num 1, Num 3,
                   Num 2, Num 1, Num 1, Num 3, Num 2, Num 1, Num 1, Num 3,
                   Num 2, Num 1, Num 1, Num 3, Num 2, Num 1, Num 1, Num 3],
                  [Num 5, Num 1, Num 4, Num 6, NaN, NaN, NaN, NaN,
                   NaN, NaN, NaN, NaN, NaN, NaN, NaN, NaN,
                   NaN, NaN, NaN, NaN, NaN, NaN, NaN, NaN]]\<rparr>"
  by (simp add: features_df_def uneven_all_features uneven_frames_def concat_axis1_def
      sensor_features_def row_stats_123 row_stats_456 upt_rec)

text \<open>
  Claim C6 at concrete sensor files.  The first sensor has two cycles and the other five
  have one: the Feature Extractor returns a table of two rows whose second row holds
  \<^verbatim>\<open>nan\<close> in the twenty columns of the five shorter tables, and raises nothing.
\<close>

theorem row_mismatch_counterexample:
  "uneven_sensors ''PS1'' = Inr [[1, 2, 3], [4, 5, 6]]
   \<and> uneven_sensors ''PS2'' = Inr [[1, 2, 3]]
   \<and> features_df uneven_sensors =
     Inr \<lparr>columns = [''PS1_mean'', ''PS1_std'', ''PS1_min'', ''PS1_max'',
                     ''PS2_mean'', ''PS2_std'', ''PS2_min'', ''PS2_max'',
                     ''PS3_mean'', ''PS3_std'', ''PS3_min'', ''PS3_max'',
                     ''TS1_mean'', ''TS1_std'', ''TS1_min'', ''TS1_max'',
                     ''TS2_mean'', ''TS2_std'', ''TS2_min'', ''TS2_max'',
                     ''VS1_mean'', ''VS1_std'', ''VS1_min'', ''VS1_max''],
          rows = [[Num 2, Num 1, Num 1, Num 3, Num 2, Num 1, Num 1, Num 3,
                   Num 2, Num 1, Num 1, Num 3, Num 2, Num 1, Num 1, Num 3,
                   Num 2, Num 1, Num 1, Num 3, Num 2, Num 1, Num 1, Num 3],
                  [Num 5, Num 1, Num 4, Num 6, NaN, NaN, NaN, NaN,
                   NaN, NaN, NaN, NaN, NaN, NaN, NaN, NaN,
                   NaN, NaN, NaN, NaN, NaN, NaN, NaN, NaN]]\<rparr>"
  by (simp add: uneven_features_df) (simp add: uneven_sensors_def)


text \<open>The interpolated order statistic of a sorted list grows with the position.\<close>

lemma interpolation_between:
  fixes xs :: "real list"
  assumes "sorted xs" and "lo < length xs" and "0 \<le> t" and "t \<le> 1"
  shows "xs ! lo \<le> xs ! lo + t * (xs ! min (lo + 1) (length xs - 1) - xs ! lo)"
    and "xs ! lo + t * (xs ! min (lo + 1) (length xs - 1) - xs ! lo) \<le> xs ! min (lo + 1) (length xs - 1)"
proof -
  let ?hi = "min (lo + 1) (length xs - 1)"
  have "lo \<le> ?hi" "?hi < length xs" using assms(2) by auto
  then have d: "0 \<le> xs ! ?hi - xs ! lo"
    using sorted_nth_mono [OF assms(1), of lo ?hi] by simp
  then have "0 \<le> t * (xs ! ?hi - xs ! lo)" using assms(3) by simp
  then show "xs ! lo \<le> xs ! lo + t * (xs ! ?hi - xs ! lo)" by simp
  have "t * (xs ! ?hi - xs ! lo) \<le> 1 * (xs ! ?hi - xs ! lo)"
    using assms(4) d by (rule mult_right_mono)
  then show "xs ! lo + t * (xs ! ?hi - xs ! lo) \<le> xs ! ?hi" by simp
qed

lemma interpolation_mono:
  fixes xs :: "real list"
  assumes srt: "sorted xs" and ne: "xs \<noteq> []"
    and h: "0 \<le> h1" "h1 \<le> h2" "h2 \<le> real (length xs - 1)"
  shows "xs ! nat \<lfloor>h1\<rfloor> + (h1 - real (nat \<lfloor>h1\<rfloor>))
             * (xs ! min (nat \<lfloor>h1\<rfloor> + 1) (length xs - 1) - xs ! nat \<lfloor>h1\<rfloor>)
       \<le> xs ! nat \<lfloor>h2\<rfloor> + (h2 - real (nat \<lfloor>h2\<rfloor>))
             * (xs ! min (nat \<lfloor>h2\<rfloor> + 1) (length xs - 1) - xs ! nat \<lfloor>h2\<rfloor>)"
proof -
  define l1 where "l1 = nat \<lfloor>h1\<rfloor>"
  define l2 where "l2 = nat \<lfloor>h2\<rfloor>"
  define N where "N = length xs - 1"
  have N: "N < length xs" using ne by (simp add: N_def)
  have h2pos: "0 \<le> h2" using h by simp
  have r1: "real l1 = of_int \<lfloor>h1\<rfloor>" using h(1) by (simp add: l1_def)
  have r2: "real l2 = of_int \<lfloor>h2\<rfloor>" using h2pos by (simp add: l2_def)
  have f1: "0 \<le> h1 - real l1" "h1 - real l1 \<le> 1" unfolding r1 by linarith+
  have f2: "0 \<le> h2 - real l2" "h2 - real l2 \<le> 1" unfolding r2 by linarith+
  have "\<lfloor>h2\<rfloor> \<le> int N"
  proof -
    have "\<lfloor>h2\<rfloor> \<le> \<lfloor>real N\<rfloor>" using h(3) unfolding N_def by (rule floor_mono)
    then show ?thesis by simp
  qed
  then have l2N: "l2 \<le> N" by (simp add: l2_def)
  have l12: "l1 \<le> l2" unfolding l1_def l2_def using floor_mono [OF h(2)] by simp
  have l1N: "l1 \<le> N" using l12 l2N by simp
  have b1: "xs ! l1 + (h1 - real l1) * (xs ! min (l1 + 1) N - xs ! l1) \<le> xs ! min (l1 + 1) N"
    unfolding N_def by (rule interpolation_between(2) [OF srt _ f1]) (use l1N N in \<open>simp add: N_def\<close>)
  have b2: "xs ! l2 \<le> xs ! l2 + (h2 - real l2) * (xs ! min (l2 + 1) N - xs ! l2)"
    unfolding N_def by (rule interpolation_between(1) [OF srt _ f2]) (use l2N N in \<open>simp add: N_def\<close>)
  have "xs ! l1 + (h1 - real l1) * (xs ! min (l1 + 1) N - xs ! l1)
        \<le> xs ! l2 + (h2 - real l2) * (xs ! min (l2 + 1) N - xs ! l2)"
  proof (cases "l1 = l2")
    case True
    have "l2 \<le> min (l2 + 1) N" using l2N by simp
    moreover have "min (l2 + 1) N < length xs" using N by simp
    ultimately have d: "0 \<le> xs ! min (l2 + 1) N - xs ! l2"
      using sorted_nth_mono [OF srt, of l2 "min (l2 + 1) N"] by simp
    have "h1 - real l2 \<le> h2 - real l2" using h(2) by simp
    then have "(h1 - real l2) * (xs ! min (l2 + 1) N - xs ! l2)
               \<le> (h2 - real l2) * (xs ! min (l2 + 1) N - xs ! l2)"
      using d by (rule mult_right_mono)
    with True show ?thesis by simp
  next
    case False
    with l12 have "min (l1 + 1) N \<le> l2" by simp
    moreover have "l2 < length xs" using l2N N by simp
    ultimately have "xs ! min (l1 + 1) N \<le> xs ! l2"
      by (rule sorted_nth_mono [OF srt])
    with b1 b2 show ?thesis by linarith
  qed
  then show ?thesis by (simp add: l1_def l2_def N_def)
qed

lemma quantile_empty: "finite_values column = [] \<Longrightarrow> quantile column q = NaN"
  by (simp add: quantile_def)

lemma quantile_ordered:
  assumes "finite_values column \<noteq> []" and "0 \<le> p" and "p \<le> q" and "q \<le> 1"
  shows "\<exists>a b. quantile column p = Num a \<and> quantile column q = Num b \<and> a \<le> b"
proof -
  define xs where "xs = sort (finite_values column)"
  have "length xs = length (finite_values column)" by (simp add: xs_def)
  then have ne: "xs \<noteq> []" using assms(1) by auto
  have srt: "sorted xs" by (simp add: xs_def)
  have n0: "0 \<le> real (length xs - 1)" by simp
  have h: "0 \<le> p * real (length xs - 1)" "p * real (length xs - 1) \<le> q * real (length xs - 1)"
    "q * real (length xs - 1) \<le> real (length xs - 1)"
    using assms(2,3,4) n0 by (simp_all add: mult_right_mono mult_left_le_one_le)
  from interpolation_mono [OF srt ne h] ne show ?thesis
    by (simp add: quantile_def xs_def [symmetric] Let_def)
qed

lemma column_ranges_entry:
  assumes "(name, lower_bound, upper_bound) \<in> set (column_ranges cols normal_data)"
  shows "float_le lower_bound upper_bound \<or> lower_bound = NaN \<and> upper_bound = NaN"
proof -
  from assms obtain j where j: "j < length cols"
    "lower_bound = quantile (map (\<lambda>r. r ! j) normal_data) (5 / 100)"
    "upper_bound = quantile (map (\<lambda>r. r ! j) normal_data) (95 / 100)"
    by (auto simp: column_ranges_def Let_def)
  show ?thesis
  proof (cases "finite_values (map (\<lambda>r. r ! j) normal_data) = []")
    case True
    then show ?thesis using j by (simp add: quantile_empty)
  next
    case False
    from quantile_ordered [OF False, of "5 / 100" "95 / 100"] j show ?thesis by auto
  qed
qed

text \<open>
  Claim C4, as the code has it.  Every entry of the range table is either a pair of numbers
  with the lower bound at most the upper bound, or the pair of two \<^verbatim>\<open>nan\<close>, which the
  quantile yields for a column without any value among the nominal rows.
\<close>

theorem normal_range_bounds_ordered:
  assumes "(name, lower_bound, upper_bound) \<in> set (calculate_normal_ranges read_profile read_sensor)"
  shows "float_le lower_bound upper_bound \<or> lower_bound = NaN \<and> upper_bound = NaN"
  using assms
  by (auto simp: calculate_normal_ranges_def split: sum.splits dest: column_ranges_entry)


lemma even_features_df:
  "features_df even_sensors = Inr \<lparr>columns = feature_columns, rows = even_rows\<rparr>"
  by (simp add: features_df_def sensors_to_process_def even_sensors_def concat_axis1_def
      sensor_features_def row_stats_123 row_stats_456 upt_rec feature_columns_def even_rows_def)

lemma column_ranges_no_rows:
  "column_ranges cols [] = map (\<lambda>name. (name, NaN, NaN)) cols"
  by (rule nth_equalityI) (simp_all add: column_ranges_def quantile_def)

lemma calculate_without_nominal_rows:
  "calculate_normal_ranges (Inr [profile_of 90, profile_of 80]) even_sensors =
     map (\<lambda>name. (name, NaN, NaN)) feature_columns"
  by (simp add: calculate_normal_ranges_def even_features_df boolean_index_def profile_of_def
      even_rows_def column_ranges_no_rows)

text \<open>
  Claim C4 at a concrete data set.  No cycle of the profile is labelled 100: the Range
  Calculator still produces an entry for every feature, with \<^verbatim>\<open>nan\<close> for both bounds,
  and the comparison of the lower with the upper bound is false.
\<close>

theorem normal_range_without_nominal_rows_counterexample:
  "map valve_condition [profile_of 90, profile_of 80] = [90, 80]
   \<and> calculate_normal_ranges (Inr [profile_of 90, profile_of 80]) even_sensors ! 0 =
       (''PS1_mean'', NaN, NaN)
   \<and> \<not> float_le NaN NaN"
  by (simp add: calculate_without_nominal_rows) (simp add: feature_columns_def profile_of_def)

lemma calculate_with_nominal_rows:
  "calculate_normal_ranges (Inr [profile_of 100, profile_of 100]) even_sensors =
     column_ranges feature_columns even_rows"
  by (simp add: calculate_normal_ranges_def even_features_df boolean_index_def profile_of_def)
     (simp add: even_rows_def)

lemma first_range_of_even_rows:
  "column_ranges feature_columns even_rows ! 0 = (''PS1_mean'', Num (43 / 20), Num (97 / 20))"
proof -
  have "(0::nat) < length feature_columns" by (simp add: feature_columns_def)
  then have "column_ranges feature_columns even_rows ! 0 =
      (feature_columns ! 0, quantile (map (\<lambda>r. r ! 0) even_rows) (5 / 100),
       quantile (map (\<lambda>r. r ! 0) even_rows) (95 / 100))"
    by (simp add: column_ranges_def Let_def del: upt_Suc)
  moreover have "map (\<lambda>r. r ! 0) even_rows = [Num 2, Num 5]" by (simp add: even_rows_def)
  moreover have "quantile [Num 2, Num 5] (5 / 100) = Num (43 / 20)"
    by (simp add: quantile_def)
  moreover have "quantile [Num 2, Num 5] (95 / 100) = Num (97 / 20)"
    by (simp add: quantile_def)
  moreover have "feature_columns ! 0 = ''PS1_mean''" by (simp add: feature_columns_def)
  ultimately show ?thesis by simp
qed

lemma first_range_member:
  "(''PS1_mean'', Num (43 / 20), Num (97 / 20)) \<in>
     set (calculate_normal_ranges (Inr [profile_of 100, profile_of 100]) even_sensors)"
proof -
  have "0 < length (column_ranges feature_columns even_rows)"
    by (simp add: column_ranges_def feature_columns_def)
  from nth_mem [OF this] show ?thesis
    by (simp add: calculate_with_nominal_rows first_range_of_even_rows)
qed

theorem normal_range_bounds_ordered_witness:
  "(''PS1_mean'', Num (43 / 20), Num (97 / 20)) \<in>
     set (calculate_normal_ranges (Inr [profile_of 100, profile_of 100]) even_sensors)
   \<and> float_le (Num (43 / 20)) (Num (97 / 20))"
  using normal_range_bounds_ordered [OF first_range_member] first_range_member
  by simp

end
